theory Spec2Isabelle
  imports Complex_Main "HOL-Library.Sublist"
begin

section \<open>Go values used by the domain package\<close>

text \<open>
  A Go \<^verbatim>\<open>string\<close> is a sequence of bytes; \<^typ>\<open>string\<close> is a list of 8-bit characters, so
  \<^term>\<open>length\<close> is Go's \<^verbatim>\<open>len\<close>. A pointer that may be \<^verbatim>\<open>nil\<close> is an \<^typ>\<open>'a option\<close>.
\<close>

text \<open>
  Errors. \<^verbatim>\<open>errors.New(msg)\<close> is \<open>errors_New msg\<close>; \<^verbatim>\<open>fmt.Errorf("prefix: %w", err)\<close> is
  \<open>fmt_Errorf prefix err\<close>.
\<close>

datatype go_error = errors_New string | fmt_Errorf string go_error

text \<open>
  \<^verbatim>\<open>float64\<close>: the finite values are read as reals; the two infinities and NaN are kept
  apart, because every ordered comparison with NaN is false. The comparisons of the
  program are against the constants 0, 1 and 0.8 only; for a finite \<^verbatim>\<open>float64\<close> \<open>x\<close>,
  \<open>x >= 0.8\<close> in Go (where 0.8 is rounded to the nearest double, just above 4/5) holds
  exactly when \<open>x\<close> is at least the real number 4/5, there being no double in between.
\<close>

datatype float64 = Finite real | PosInf | NegInf | NaN

fun f64_lt :: "float64 \<Rightarrow> float64 \<Rightarrow> bool" where
  "f64_lt (Finite x) (Finite y) = (x < y)"
| "f64_lt (Finite x) PosInf = True"
| "f64_lt NegInf (Finite y) = True"
| "f64_lt NegInf PosInf = True"
| "f64_lt _ _ = False"

definition f64_gt :: "float64 \<Rightarrow> float64 \<Rightarrow> bool" where
  "f64_gt a b = f64_lt b a"

text \<open>\<open>a >= b\<close>: greater or equal, and \<open>==\<close> is false when an operand is NaN.\<close>

definition f64_ge :: "float64 \<Rightarrow> float64 \<Rightarrow> bool" where
  "f64_ge a b = (f64_gt a b \<or> (a \<noteq> NaN \<and> a = b))"

text \<open>\<^verbatim>\<open>%d\<close> of a non-negative \<^verbatim>\<open>int\<close> (as \<^verbatim>\<open>len\<close> returns): its decimal digits.\<close>

fun Itoa :: "nat \<Rightarrow> string" where
  "Itoa n = (if n < 10 then [''0123456789'' ! n]
             else Itoa (n div 10) @ [''0123456789'' ! (n mod 10)])"

declare Itoa.simps [simp del]

subsection \<open>strings.TrimSpace\<close>

text \<open>
  \<^verbatim>\<open>strings.TrimSpace\<close> removes leading and trailing white space as \<^verbatim>\<open>unicode.IsSpace\<close>
  defines it. On the bytes of a string these are the UTF-8 encodings of
  U+0009..U+000D, U+0020, U+0085, U+00A0, U+1680, U+2000..U+200A, U+2028, U+2029, U+202F,
  U+205F and U+3000.
\<close>

definition spaceRunes :: "string list" where
  "spaceRunes =
     [[CHR 0x09], [CHR 0x0A], [CHR 0x0B], [CHR 0x0C], [CHR 0x0D], [CHR 0x20],
      [CHR 0xC2, CHR 0x85], [CHR 0xC2, CHR 0xA0],
      [CHR 0xE1, CHR 0x9A, CHR 0x80],
      [CHR 0xE2, CHR 0x80, CHR 0x80], [CHR 0xE2, CHR 0x80, CHR 0x81],
      [CHR 0xE2, CHR 0x80, CHR 0x82], [CHR 0xE2, CHR 0x80, CHR 0x83],
      [CHR 0xE2, CHR 0x80, CHR 0x84], [CHR 0xE2, CHR 0x80, CHR 0x85],
      [CHR 0xE2, CHR 0x80, CHR 0x86], [CHR 0xE2, CHR 0x80, CHR 0x87],
      [CHR 0xE2, CHR 0x80, CHR 0x88], [CHR 0xE2, CHR 0x80, CHR 0x89],
      [CHR 0xE2, CHR 0x80, CHR 0x8A],
      [CHR 0xE2, CHR 0x80, CHR 0xA8], [CHR 0xE2, CHR 0x80, CHR 0xA9],
      [CHR 0xE2, CHR 0x80, CHR 0xAF],
      [CHR 0xE2, CHR 0x81, CHR 0x9F],
      [CHR 0xE3, CHR 0x80, CHR 0x80]]"

text \<open>The byte length of the white-space rune a string starts (ends) with; 0 if none.\<close>

definition leadingSpace :: "string \<Rightarrow> nat" where
  "leadingSpace s = (case filter (\<lambda>e. prefix e s) spaceRunes of [] \<Rightarrow> 0 | e # _ \<Rightarrow> length e)"

definition trailingSpace :: "string \<Rightarrow> nat" where
  "trailingSpace s = (case filter (\<lambda>e. suffix e s) spaceRunes of [] \<Rightarrow> 0 | e # _ \<Rightarrow> length e)"

function TrimLeft :: "string \<Rightarrow> string" where
  "TrimLeft s = (if leadingSpace s = 0 then s else TrimLeft (drop (leadingSpace s) s))"
  by pat_completeness auto
termination
proof (relation "measure length")
  show "wf (measure length)" by simp
next
  fix s :: string
  assume pos: "leadingSpace s \<noteq> 0"
  have "leadingSpace s \<le> length s"
  proof (cases "filter (\<lambda>e. prefix e s) spaceRunes")
    case Nil
    then show ?thesis by (simp add: leadingSpace_def)
  next
    case (Cons e es)
    then have "e \<in> set (filter (\<lambda>e. prefix e s) spaceRunes)" by simp
    then have "prefix e s" by simp
    then have "length e \<le> length s" by (rule prefix_length_le)
    with Cons show ?thesis by (simp add: leadingSpace_def)
  qed
  with pos show "(drop (leadingSpace s) s, s) \<in> measure length" by simp
qed

function TrimRight :: "string \<Rightarrow> string" where
  "TrimRight s = (if trailingSpace s = 0 then s
                  else TrimRight (take (length s - trailingSpace s) s))"
  by pat_completeness auto
termination
proof (relation "measure length")
  show "wf (measure length)" by simp
next
  fix s :: string
  assume pos: "trailingSpace s \<noteq> 0"
  have "trailingSpace s \<le> length s"
  proof (cases "filter (\<lambda>e. suffix e s) spaceRunes")
    case Nil
    then show ?thesis by (simp add: trailingSpace_def)
  next
    case (Cons e es)
    then have "e \<in> set (filter (\<lambda>e. suffix e s) spaceRunes)" by simp
    then have "suffix e s" by simp
    then have "length e \<le> length s" by (rule suffix_length_le)
    with Cons show ?thesis by (simp add: trailingSpace_def)
  qed
  with pos show "(take (length s - trailingSpace s) s, s) \<in> measure length" by simp
qed

declare TrimLeft.simps [simp del] TrimRight.simps [simp del]

definition TrimSpace :: "string \<Rightarrow> string" where
  "TrimSpace s = TrimRight (TrimLeft s)"

section \<open>internal/domain: value objects\<close>

subsection \<open>MessageType\<close>

type_synonym MessageType = string

definition MessageTypeIdea :: MessageType where "MessageTypeIdea = ''idea''"
definition MessageTypeDecision :: MessageType where "MessageTypeDecision = ''decision''"
definition MessageTypeStatus :: MessageType where "MessageTypeStatus = ''status''"
definition MessageTypeUnknown :: MessageType where "MessageTypeUnknown = ''unknown''"

definition validMessageTypes :: "MessageType \<rightharpoonup> bool" where
  "validMessageTypes = map_of
     [(MessageTypeIdea, True), (MessageTypeDecision, True),
      (MessageTypeStatus, True), (MessageTypeUnknown, True)]"

text \<open>Indexing a Go map with a missing key yields the zero value, here \<^verbatim>\<open>false\<close>.\<close>

definition MessageType_IsValid :: "MessageType \<Rightarrow> bool" where
  "MessageType_IsValid mt = (case validMessageTypes mt of None \<Rightarrow> False | Some b \<Rightarrow> b)"

subsection \<open>Category\<close>

type_synonym Category = string

definition CategoryOperations :: Category where "CategoryOperations = ''operations''"
definition CategoryDevelopment :: Category where "CategoryDevelopment = ''development''"
definition CategoryProduct :: Category where "CategoryProduct = ''product''"
definition CategoryQualityAssurance :: Category where
  "CategoryQualityAssurance = ''quality_assurance''"
definition CategoryDataAnalysis :: Category where "CategoryDataAnalysis = ''data_analysis''"
definition CategoryOther :: Category where "CategoryOther = ''other''"
definition CategoryUnknown :: Category where "CategoryUnknown = ''unknown''"

definition validCategories :: "Category \<rightharpoonup> bool" where
  "validCategories = map_of
     [(CategoryOperations, True), (CategoryDevelopment, True), (CategoryProduct, True),
      (CategoryQualityAssurance, True), (CategoryDataAnalysis, True),
      (CategoryOther, True), (CategoryUnknown, True)]"

definition Category_IsValid :: "Category \<Rightarrow> bool" where
  "Category_IsValid c = (case validCategories c of None \<Rightarrow> False | Some b \<Rightarrow> b)"

subsection \<open>Reference\<close>

record Reference =
  refType :: string
  ref_value :: string

subsection \<open>MessageContent\<close>

datatype MessageContent = MessageContent (Text: string)

definition ErrEmptyContent :: go_error where
  "ErrEmptyContent = errors_New ''content cannot be empty''"

definition MaxContentLength :: nat where
  "MaxContentLength = 10000"

definition NewMessageContent :: "string \<Rightarrow> go_error + MessageContent" where
  "NewMessageContent text0 =
     (let text = TrimSpace text0 in
      if text = [] then Inl ErrEmptyContent
      else let text = (if length text > MaxContentLength then take MaxContentLength text
                       else text)
           in Inr (MessageContent text))"

subsection \<open>MessageAnalysisResult\<close>

definition ErrInvalidConfidenceScore :: go_error where
  "ErrInvalidConfidenceScore = errors_New ''confidence score must be between 0 and 1''"

definition ErrInvalidAnalysisResult :: go_error where
  "ErrInvalidAnalysisResult = errors_New ''invalid analysis result''"

record MessageAnalysisResult =
  r_messageType :: MessageType
  r_category :: Category
  r_references :: "Reference option list"
  r_confidenceScore :: float64
  r_suggestedTags :: "string list"

definition NewMessageAnalysisResult ::
  "MessageType \<Rightarrow> Category \<Rightarrow> Reference option list \<Rightarrow> float64 \<Rightarrow> string list
     \<Rightarrow> go_error + MessageAnalysisResult" where
  "NewMessageAnalysisResult msgType category references confidence tags =
     (if f64_lt confidence (Finite 0) \<or> f64_gt confidence (Finite 1)
      then Inl ErrInvalidConfidenceScore
      else if \<not> MessageType_IsValid msgType \<or> \<not> Category_IsValid category
      then Inl ErrInvalidAnalysisResult
      else Inr \<lparr> r_messageType = msgType, r_category = category,
                 r_references = references, r_confidenceScore = confidence,
                 r_suggestedTags = tags \<rparr>)"

definition IsHighConfidence :: "MessageAnalysisResult \<Rightarrow> bool" where
  "IsHighConfidence r = f64_ge (r_confidenceScore r) (Finite 0.8)"

definition HasSuggestedTags :: "MessageAnalysisResult \<Rightarrow> bool" where
  "HasSuggestedTags r = (length (r_suggestedTags r) > 0)"

subsection \<open>common.ID, time.Time\<close>

text \<open>
  \<^verbatim>\<open>common.ID\<close> is a struct holding one string. A \<^verbatim>\<open>time.Time\<close> is kept as its UTC calendar
  fields, which is all the program reads of it.
\<close>

type_synonym ID = string

record Time =
  year :: nat
  month :: nat
  day :: nat
  hour :: nat
  minute :: nat
  second :: nat

text \<open>A number in at least \<open>w\<close> decimal digits, as the layout fields \<^verbatim>\<open>2006 01 02 15 04 05\<close> print.\<close>

definition pad :: "nat \<Rightarrow> nat \<Rightarrow> string" where
  "pad w n = replicate (w - length (Itoa n)) (CHR ''0'') @ Itoa n"

text \<open>\<^verbatim>\<open>t.Format("20060102-150405")\<close>\<close>

definition Format_20060102_150405 :: "Time \<Rightarrow> string" where
  "Format_20060102_150405 t =
     pad 4 (year t) @ pad 2 (month t) @ pad 2 (day t) @ ''-'' @
     pad 2 (hour t) @ pad 2 (minute t) @ pad 2 (second t)"

subsection \<open>filepath.Join\<close>

text \<open>
  \<^verbatim>\<open>filepath.Join\<close> (separator \<^verbatim>\<open>/\<close>) ignores empty elements, joins the others with the
  separator and cleans the result; with no non-empty element it returns the empty string.
  \<^verbatim>\<open>Clean\<close> drops empty and \<^verbatim>\<open>.\<close> elements, resolves an inner \<^verbatim>\<open>..\<close> against the element
  before it, drops a \<^verbatim>\<open>..\<close> at the root of a rooted path and keeps it at the front of a
  relative one; an empty result is \<^verbatim>\<open>.\<close>.
\<close>

fun joinSlash :: "string list \<Rightarrow> string" where
  "joinSlash [] = []"
| "joinSlash [e] = e"
| "joinSlash (e # es) = e @ ''/'' @ joinSlash es"

fun splitSlash :: "string \<Rightarrow> string list" where
  "splitSlash [] = [[]]"
| "splitSlash (c # cs) =
     (if c = CHR ''/'' then [] # splitSlash cs
      else (case splitSlash cs of [] \<Rightarrow> [[c]] | e # es \<Rightarrow> (c # e) # es))"

fun cleanElems :: "bool \<Rightarrow> string list \<Rightarrow> string list \<Rightarrow> string list" where
  "cleanElems rooted acc [] = rev acc"
| "cleanElems rooted acc (e # es) =
     (if e = [] \<or> e = ''.'' then cleanElems rooted acc es
      else if e = ''..'' then
        (case acc of
           [] \<Rightarrow> if rooted then cleanElems rooted [] es else cleanElems rooted [''..''] es
         | a # as \<Rightarrow> if a = ''..'' then cleanElems rooted (''..'' # acc) es
                     else cleanElems rooted as es)
      else cleanElems rooted (e # acc) es)"

definition Clean :: "string \<Rightarrow> string" where
  "Clean path =
     (case path of
        [] \<Rightarrow> ''.''
      | c # _ \<Rightarrow>
          (let rooted = (c = CHR ''/'');
               out = cleanElems rooted [] (splitSlash path)
           in if rooted then CHR ''/'' # joinSlash out
              else if out = [] then ''.'' else joinSlash out))"

definition filepath_Join :: "string list \<Rightarrow> string" where
  "filepath_Join elems =
     (let es = filter (\<lambda>e. e \<noteq> []) elems
      in if es = [] then [] else Clean (joinSlash es))"

section \<open>internal/domain: Message\<close>

record Message =
  m_id :: ID
  m_threadID :: ID
  m_sender :: string
  m_content :: MessageContent
  m_messageType :: MessageType
  m_category :: Category
  m_references :: "Reference option list"
  m_timestamp :: Time

definition ErrInvalidSender :: go_error where
  "ErrInvalidSender = errors_New ''invalid sender''"
definition ErrNoContent :: go_error where
  "ErrNoContent = errors_New ''message must have content''"
definition ErrNoType :: go_error where
  "ErrNoType = errors_New ''message must have type''"

text \<open>
  \<^verbatim>\<open>NewMessage\<close> calls \<^verbatim>\<open>common.GenerateID()\<close> and \<^verbatim>\<open>time.Now()\<close> on its success path only;
  the identifier and the time they return are the arguments \<open>newID\<close> and \<open>now\<close>.
\<close>

definition NewMessage ::
  "ID \<Rightarrow> Time \<Rightarrow> ID \<Rightarrow> string \<Rightarrow> MessageContent option \<Rightarrow> MessageType \<Rightarrow> Category
     \<Rightarrow> Reference option list \<Rightarrow> go_error + Message" where
  "NewMessage newID now threadID sender content messageType category references =
     (if sender = [] then Inl ErrInvalidSender
      else case content of
        None \<Rightarrow> Inl ErrNoContent
      | Some c \<Rightarrow>
          if \<not> MessageType_IsValid messageType then Inl ErrNoType
          else Inr \<lparr> m_id = newID, m_threadID = threadID, m_sender = sender,
                     m_content = c, m_messageType = messageType, m_category = category,
                     m_references = references, m_timestamp = now \<rparr>)"

definition References :: "Message \<Rightarrow> Reference option list" where
  "References m = m_references m"

definition AddReference :: "Message \<Rightarrow> Reference option \<Rightarrow> Message" where
  "AddReference m ref =
     (case ref of
        None \<Rightarrow> m
      | Some r \<Rightarrow> m\<lparr> m_references := m_references m @ [Some r] \<rparr>)"

definition HasReferences :: "Message \<Rightarrow> bool" where
  "HasReferences m = (length (m_references m) > 0)"

definition UpdateCategory :: "Message \<Rightarrow> Category \<Rightarrow> Message" where
  "UpdateCategory m category =
     (if Category_IsValid category then m\<lparr> m_category := category \<rparr> else m)"

section \<open>internal/domain/ports and internal/domain/services\<close>

text \<open>
  The metadata map that \<^verbatim>\<open>CreateDocumentation\<close> builds has exactly the keys
  \<^verbatim>\<open>type\<close>, \<^verbatim>\<open>category\<close>, \<^verbatim>\<open>created_at\<close> and \<^verbatim>\<open>references\<close>.
\<close>

record Metadata =
  md_type :: string
  md_category :: string
  md_created_at :: Time
  md_references :: "Reference option list"

text \<open>
  The collaborators behind the port interfaces (\<^verbatim>\<open>AiAgentProvider\<close>,
  \<^verbatim>\<open>DocumentStoreProvider\<close>, \<^verbatim>\<open>ChatAccessProvider\<close>) and the clock are external: each is a
  function of its arguments returning the result or the error. \<open>Now n\<close> is what the
  \<open>n\<close>-th reading of \<^verbatim>\<open>time.Now().UTC()\<close> returns.
\<close>

record Providers =
  AnalyzeMessage :: "string \<Rightarrow> go_error + MessageAnalysisResult"
  DetectReferences :: "string \<Rightarrow> go_error + Reference option list"
  GenerateDocumentation :: "string \<Rightarrow> Metadata \<Rightarrow> go_error + string"
  StoreDocument :: "string \<Rightarrow> string \<Rightarrow> Metadata \<Rightarrow> go_error option"
  ReplyToMessage :: "string \<Rightarrow> string \<Rightarrow> go_error option"
  Now :: "nat \<Rightarrow> Time"

text \<open>
  The effects of the program are the calls it makes on the collaborators, in order. A
  store and a reply carry the error the collaborator returned (\<open>None\<close> is \<^verbatim>\<open>nil\<close>): a
  document is stored, a reply is sent, when the call returned no error.
\<close>

datatype call =
    AnalyzeMessage_call string
  | DetectReferences_call string
  | GenerateDocumentation_call string Metadata
  | StoreDocument_call string string Metadata "go_error option"
  | ReplyToMessage_call string string "go_error option"

record World =
  calls :: "call list"
  ticks :: nat

definition called :: "call \<Rightarrow> World \<Rightarrow> World" where
  "called c w = w\<lparr> calls := calls w @ [c] \<rparr>"

fun stored :: "call list \<Rightarrow> (string \<times> string) list" where
  "stored [] = []"
| "stored (StoreDocument_call path content md None # cs) = (path, content) # stored cs"
| "stored (_ # cs) = stored cs"

fun sent :: "call list \<Rightarrow> (string \<times> string) list" where
  "sent [] = []"
| "sent (ReplyToMessage_call messageID content None # cs) = (messageID, content) # sent cs"
| "sent (_ # cs) = sent cs"

fun detections :: "call list \<Rightarrow> string list" where
  "detections [] = []"
| "detections (DetectReferences_call content # cs) = content # detections cs"
| "detections (_ # cs) = detections cs"

text \<open>The calls that produce documentation, and the calls that reply.\<close>

fun documentation :: "call list \<Rightarrow> call list" where
  "documentation [] = []"
| "documentation (GenerateDocumentation_call content md # cs) =
     GenerateDocumentation_call content md # documentation cs"
| "documentation (StoreDocument_call path content md res # cs) =
     StoreDocument_call path content md res # documentation cs"
| "documentation (_ # cs) = documentation cs"

fun replies :: "call list \<Rightarrow> call list" where
  "replies [] = []"
| "replies (ReplyToMessage_call messageID content res # cs) =
     ReplyToMessage_call messageID content res # replies cs"
| "replies (_ # cs) = replies cs"

datatype Context = Background

subsection \<open>DocumentationService\<close>

definition generatePath :: "MessageType \<Rightarrow> Category \<Rightarrow> Time \<Rightarrow> string" where
  "generatePath msgType category now =
     (let timestamp = Format_20060102_150405 now;
          filename = msgType @ ''-'' @ timestamp @ ''.md''
      in filepath_Join [''docs'', category, filename])"

definition CreateDocumentation ::
  "Providers \<Rightarrow> Context option \<Rightarrow> MessageType \<Rightarrow> Category \<Rightarrow> string
     \<Rightarrow> Reference option list \<Rightarrow> World \<Rightarrow> go_error option \<times> World" where
  "CreateDocumentation env ctx msgType category content references w =
     (case ctx of
        None \<Rightarrow> (Some (errors_New ''context cannot be nil''), w)
      | Some _ \<Rightarrow>
          (let metadata = \<lparr> md_type = msgType, md_category = category,
                             md_created_at = Now env (ticks w),
                             md_references = references \<rparr>;
               w1 = called (GenerateDocumentation_call content metadata)
                      (w\<lparr> ticks := Suc (ticks w) \<rparr>)
           in case GenerateDocumentation env content metadata of
                Inl err \<Rightarrow> (Some (fmt_Errorf ''failed to generate documentation'' err), w1)
              | Inr doc \<Rightarrow>
                  (let path = generatePath msgType category (Now env (ticks w1));
                       res = StoreDocument env path doc metadata;
                       w2 = called (StoreDocument_call path doc metadata res)
                              (w1\<lparr> ticks := Suc (ticks w1) \<rparr>)
                   in case res of
                        Some err \<Rightarrow> (Some (fmt_Errorf ''failed to store documentation'' err), w2)
                      | None \<Rightarrow> (None, w2))))"

subsection \<open>The handlers of BotService\<close>

datatype MessageHandler = ideaHandler | decisionHandler | statusHandler | unknownHandler

definition createDocumentation ::
  "Providers \<Rightarrow> Context option \<Rightarrow> Message \<Rightarrow> World \<Rightarrow> go_error option \<times> World" where
  "createDocumentation env ctx msg w =
     CreateDocumentation env ctx (m_messageType msg) (m_category msg)
       (Text (m_content msg)) (References msg) w"

text \<open>The reply of the three documenting handlers, after its first line.\<close>

definition linked :: "Message \<Rightarrow> string" where
  "linked msg =
     (if HasReferences msg
      then [CHR 0x0A, CHR 0xF0, CHR 0x9F, CHR 0x94, CHR 0x97] @ '' Linked to '' @
           Itoa (length (References msg)) @ '' related items''
      else [])"

definition reply_to :: "Providers \<Rightarrow> Message \<Rightarrow> string \<Rightarrow> World \<Rightarrow> go_error option \<times> World" where
  "reply_to env msg reply w =
     (let res = ReplyToMessage env (m_id msg) reply
      in (res, called (ReplyToMessage_call (m_id msg) reply res) w))"

definition ideaHandler_Handle ::
  "Providers \<Rightarrow> Context option \<Rightarrow> Message \<Rightarrow> World \<Rightarrow> go_error option \<times> World" where
  "ideaHandler_Handle env ctx msg w =
     (case createDocumentation env ctx msg w of
        (Some err, w1) \<Rightarrow> (Some (fmt_Errorf ''failed to create idea documentation'' err), w1)
      | (None, w1) \<Rightarrow>
          reply_to env msg
            ([CHR 0xF0, CHR 0x9F, CHR 0x93, CHR 0x9D] @ '' Captured idea in category: '' @
             m_category msg @ linked msg) w1)"

definition decisionHandler_Handle ::
  "Providers \<Rightarrow> Context option \<Rightarrow> Message \<Rightarrow> World \<Rightarrow> go_error option \<times> World" where
  "decisionHandler_Handle env ctx msg w =
     (case createDocumentation env ctx msg w of
        (Some err, w1) \<Rightarrow>
          (Some (fmt_Errorf ''failed to create decision documentation'' err), w1)
      | (None, w1) \<Rightarrow>
          reply_to env msg
            ([CHR 0xE2, CHR 0x9C, CHR 0x85] @ '' Recorded decision in category: '' @
             m_category msg @ linked msg) w1)"

definition statusHandler_Handle ::
  "Providers \<Rightarrow> Context option \<Rightarrow> Message \<Rightarrow> World \<Rightarrow> go_error option \<times> World" where
  "statusHandler_Handle env ctx msg w =
     (case createDocumentation env ctx msg w of
        (Some err, w1) \<Rightarrow> (Some (fmt_Errorf ''failed to create status documentation'' err), w1)
      | (None, w1) \<Rightarrow>
          reply_to env msg
            ([CHR 0xF0, CHR 0x9F, CHR 0x93, CHR 0x8A] @ '' Logged status update in category: '' @
             m_category msg @ linked msg) w1)"

definition unknownHandler_Handle ::
  "Providers \<Rightarrow> Context option \<Rightarrow> Message \<Rightarrow> World \<Rightarrow> go_error option \<times> World" where
  "unknownHandler_Handle env ctx msg w = (None, w)"

text \<open>The loop over the suggested tags: one line \<^verbatim>\<open>- #tag\<close> for each.\<close>

fun tag_lines :: "string list \<Rightarrow> string" where
  "tag_lines [] = []"
| "tag_lines (tag # tags) = ''- #'' @ tag @ [CHR 0x0A] @ tag_lines tags"

definition suggestion :: "MessageAnalysisResult \<Rightarrow> string" where
  "suggestion analysis =
     [CHR 0xF0, CHR 0x9F, CHR 0x92, CHR 0xA1] @
     '' I noticed this might be relevant. Consider adding these tags:'' @ [CHR 0x0A] @
     tag_lines (r_suggestedTags analysis)"

definition unknownHandler_HandleWithAnalysis ::
  "Providers \<Rightarrow> Context option \<Rightarrow> Message \<Rightarrow> MessageAnalysisResult \<Rightarrow> World
     \<Rightarrow> go_error option \<times> World" where
  "unknownHandler_HandleWithAnalysis env ctx msg analysis w =
     (if \<not> IsHighConfidence analysis \<or> \<not> HasSuggestedTags analysis then (None, w)
      else reply_to env msg (suggestion analysis) w)"

fun Handle ::
  "MessageHandler \<Rightarrow> Providers \<Rightarrow> Context option \<Rightarrow> Message \<Rightarrow> World
     \<Rightarrow> go_error option \<times> World" where
  "Handle ideaHandler = ideaHandler_Handle"
| "Handle decisionHandler = decisionHandler_Handle"
| "Handle statusHandler = statusHandler_Handle"
| "Handle unknownHandler = unknownHandler_Handle"

text \<open>Only \<^verbatim>\<open>unknownHandler\<close> has the method \<^verbatim>\<open>HandleWithAnalysis\<close> of \<^verbatim>\<open>SuggestionsHandler\<close>.\<close>

fun as_SuggestionsHandler :: "MessageHandler \<Rightarrow> bool" where
  "as_SuggestionsHandler unknownHandler = True"
| "as_SuggestionsHandler _ = False"

subsection \<open>BotService\<close>

definition handlers :: "MessageType \<rightharpoonup> MessageHandler" where
  "handlers = map_of
     [(MessageTypeIdea, ideaHandler), (MessageTypeDecision, decisionHandler),
      (MessageTypeStatus, statusHandler), (MessageTypeUnknown, unknownHandler)]"

definition analyzeMessage ::
  "Providers \<Rightarrow> Message \<Rightarrow> World \<Rightarrow> (go_error + MessageAnalysisResult) \<times> World" where
  "analyzeMessage env msg w =
     (let w1 = called (AnalyzeMessage_call (Text (m_content msg))) w
      in case AnalyzeMessage env (Text (m_content msg)) of
           Inl err \<Rightarrow> (Inl (fmt_Errorf ''AI analysis failed'' err), w1)
         | Inr result \<Rightarrow> (Inr result, w1))"

definition updateMessageWithAnalysis :: "Message \<Rightarrow> MessageAnalysisResult \<Rightarrow> Message" where
  "updateMessageWithAnalysis msg analysis =
     foldl AddReference (UpdateCategory msg (r_category analysis)) (r_references analysis)"

definition detectAndAddReferences ::
  "Providers \<Rightarrow> Message \<Rightarrow> World \<Rightarrow> go_error option \<times> Message \<times> World" where
  "detectAndAddReferences env msg w =
     (let w1 = called (DetectReferences_call (Text (m_content msg))) w
      in case DetectReferences env (Text (m_content msg)) of
           Inl err \<Rightarrow> (Some (fmt_Errorf ''failed to detect references'' err), msg, w1)
         | Inr refs \<Rightarrow> (None, foldl AddReference msg refs, w1))"

text \<open>
  \<^verbatim>\<open>ProcessMessage\<close> returns an error or \<^verbatim>\<open>nil\<close>, or panics: a message type with no entry
  in \<^verbatim>\<open>handlers\<close> yields a nil interface, whose type assertion fails and whose \<^verbatim>\<open>Handle\<close>
  call is a nil dereference. The message is mutated in place, so it is returned too.
\<close>

datatype outcome = Returned "go_error option" | Panicked

text \<open>The last statements of \<^verbatim>\<open>ProcessMessage\<close>: the handler is looked up and called.\<close>

definition route ::
  "Providers \<Rightarrow> Context option \<Rightarrow> Message \<Rightarrow> MessageAnalysisResult \<Rightarrow> World
     \<Rightarrow> outcome \<times> World" where
  "route env ctx msg analysis w =
     (case handlers (r_messageType analysis) of
        None \<Rightarrow> (Panicked, w)
      | Some handler \<Rightarrow>
          if as_SuggestionsHandler handler
          then (case unknownHandler_HandleWithAnalysis env ctx msg analysis w of
                  (res, w1) \<Rightarrow> (Returned res, w1))
          else (case Handle handler env ctx msg w of
                  (res, w1) \<Rightarrow> (Returned res, w1)))"

definition ProcessMessage ::
  "Providers \<Rightarrow> Context option \<Rightarrow> Message option \<Rightarrow> World
     \<Rightarrow> outcome \<times> Message option \<times> World" where
  "ProcessMessage env ctx msg0 w =
     (case ctx of
        None \<Rightarrow> (Returned (Some (errors_New ''context cannot be nil'')), msg0, w)
      | Some _ \<Rightarrow>
     (case msg0 of
        None \<Rightarrow> (Returned (Some (errors_New ''message cannot be nil'')), None, w)
      | Some msg \<Rightarrow>
     (case analyzeMessage env msg w of
        (Inl err, w1) \<Rightarrow>
          (Returned (Some (fmt_Errorf ''failed to analyze message'' err)), Some msg, w1)
      | (Inr analysis, w1) \<Rightarrow>
     (let msg1 = updateMessageWithAnalysis msg analysis
      in case (if \<not> HasReferences msg1 then detectAndAddReferences env msg1 w1
               else (None, msg1, w1)) of
        (Some err, msg2, w2) \<Rightarrow> (Returned (Some err), Some msg2, w2)
      | (None, msg2, w2) \<Rightarrow>
          (case route env ctx msg2 analysis w2 of
             (out, w3) \<Rightarrow> (out, Some msg2, w3))))))"

section \<open>internal/providers/chat/slack: Client\<close>

text \<open>The fields of \<^verbatim>\<open>slack.MessageEvent\<close> that \<^verbatim>\<open>processMessageEvent\<close> reads.\<close>

record MessageEvent =
  BotID :: string
  User :: string
  ThreadTimestamp :: string
  Timestamp :: string
  MsgText :: string

text \<open>
  What the client takes from outside: \<open>GetUserInfo\<close> is the Slack API call, of whose result
  only the field \<^verbatim>\<open>Name\<close> is read; \<open>GenerateID n\<close> is the identifier that the \<open>n\<close>-th call
  of \<^verbatim>\<open>common.GenerateID()\<close> returns (a ULID drawn from a monotonic entropy source);
  \<open>time_Now n\<close> is the \<open>n\<close>-th reading of \<^verbatim>\<open>time.Now()\<close>.

  \<open>MessageTypeInformation\<close> stands for the constant \<^verbatim>\<open>domain.MessageTypeInformation\<close>,
  which \<^verbatim>\<open>processMessageEvent\<close> uses and no source file declares; it is a parameter.
\<close>

record SlackEnv =
  GetUserInfo :: "string \<Rightarrow> go_error + string"
  GenerateID :: "nat \<Rightarrow> ID"
  time_Now :: "nat \<Rightarrow> Time"
  MessageTypeInformation :: MessageType

text \<open>
  The state of the client: the thread map, the read locks on \<^verbatim>\<open>threadLock\<close> that are held
  and not released, the messages sent on \<^verbatim>\<open>messageCh\<close> (oldest first; the channel buffers
  100 messages and a send waits for the consumer when it is full), and the numbers of
  identifiers generated and of clock readings taken so far in the process.
\<close>

record Client =
  threadMap :: "string \<rightharpoonup> ID"
  readers :: nat
  messageCh :: "Message list"
  generated :: nat
  clock :: nat

text \<open>
  The block "Handle thread mapping" of \<^verbatim>\<open>processMessageEvent\<close>. It gives the event a thread
  id and goes on (\<open>Resolved\<close>), or returns from \<^verbatim>\<open>processMessageEvent\<close> (\<open>Returned_early\<close>),
  or waits forever in \<^verbatim>\<open>threadLock.Lock()\<close> for a read lock that is never released
  (\<open>Blocked\<close>). \<^verbatim>\<open>handleEvents\<close> calls \<^verbatim>\<open>processMessageEvent\<close> from its one loop, so no writer
  holds the lock when \<^verbatim>\<open>RLock\<close> is called and \<^verbatim>\<open>RLock\<close> never waits.
\<close>

datatype resolution = Resolved ID Client | Returned_early Client | Blocked Client

definition threadMapping :: "SlackEnv \<Rightarrow> Client \<Rightarrow> MessageEvent \<Rightarrow> resolution" where
  "threadMapping env c msg =
     (let c1 = c\<lparr> readers := Suc (readers c) \<rparr>
      in if ThreadTimestamp msg \<noteq> [] then
           (case threadMap c1 (ThreadTimestamp msg) of
              Some ident \<Rightarrow> Resolved ident c1
            | None \<Rightarrow>
                (let threadID = GenerateID env (generated c1);
                     c2 = c1\<lparr> generated := Suc (generated c1), readers := readers c1 - 1 \<rparr>
                 in if readers c2 > 0 then Blocked c2
                    else Returned_early
                           (c2\<lparr> threadMap := (threadMap c2)(ThreadTimestamp msg \<mapsto> threadID) \<rparr>)))
         else
           (let threadID = GenerateID env (generated c1);
                c2 = c1\<lparr> generated := Suc (generated c1), readers := readers c1 - 1 \<rparr>
            in if readers c2 > 0 then Blocked c2
               else Resolved threadID
                      (c2\<lparr> threadMap := (threadMap c2)(Timestamp msg \<mapsto> threadID) \<rparr>)))"

datatype progress = Finished Client | Hung Client

definition processMessageEvent ::
  "SlackEnv \<Rightarrow> Client \<Rightarrow> string \<Rightarrow> MessageEvent \<Rightarrow> progress" where
  "processMessageEvent env c eventID msg =
     (if BotID msg \<noteq> [] \<or> User msg = [] then Finished c
      else case GetUserInfo env (User msg) of
        Inl err \<Rightarrow> Finished c
      | Inr name \<Rightarrow>
     (case threadMapping env c msg of
        Blocked c1 \<Rightarrow> Hung c1
      | Returned_early c1 \<Rightarrow> Finished c1
      | Resolved threadID c1 \<Rightarrow>
     (case NewMessageContent (MsgText msg) of
        Inl err \<Rightarrow> Finished c1
      | Inr messageContent \<Rightarrow>
     (case NewMessage (GenerateID env (generated c1)) (time_Now env (clock c1))
             threadID name (Some messageContent) (MessageTypeInformation env)
             CategoryOther [] of
        Inl err \<Rightarrow> Finished c1
      | Inr domainMsg \<Rightarrow>
          Finished (c1\<lparr> generated := Suc (generated c1), clock := Suc (clock c1),
                        messageCh := messageCh c1 @ [domainMsg] \<rparr>)))))"

text \<open>
  The thread id an event is given: \<open>None\<close> when the event is skipped before the thread
  mapping, or the mapping returns early or blocks.
\<close>

definition threadID_of :: "SlackEnv \<Rightarrow> Client \<Rightarrow> MessageEvent \<Rightarrow> ID option" where
  "threadID_of env c msg =
     (if BotID msg \<noteq> [] \<or> User msg = [] then None
      else case GetUserInfo env (User msg) of
        Inl err \<Rightarrow> None
      | Inr name \<Rightarrow>
          (case threadMapping env c msg of
             Resolved threadID c1 \<Rightarrow> Some threadID
           | _ \<Rightarrow> None))"

text \<open>
  The loop of \<^verbatim>\<open>handleEvents\<close> over the message events it receives, each with its event id:
  the final state, and the thread id given to each event. Once a call blocks, the loop
  handles no further event.
\<close>

fun handleEvents :: "SlackEnv \<Rightarrow> Client \<Rightarrow> (string \<times> MessageEvent) list \<Rightarrow> progress" where
  "handleEvents env c [] = Finished c"
| "handleEvents env c ((eventID, msg) # es) =
     (case processMessageEvent env c eventID msg of
        Finished c1 \<Rightarrow> handleEvents env c1 es
      | Hung c1 \<Rightarrow> Hung c1)"

fun resolutions :: "SlackEnv \<Rightarrow> Client \<Rightarrow> (string \<times> MessageEvent) list \<Rightarrow> ID option list" where
  "resolutions env c [] = []"
| "resolutions env c ((eventID, msg) # es) =
     threadID_of env c msg #
     (case processMessageEvent env c eventID msg of
        Finished c1 \<Rightarrow> resolutions env c1 es
      | Hung c1 \<Rightarrow> map (\<lambda>_. None) es)"

section \<open>Inputs on which the program is evaluated\<close>

text \<open>
  A clock whose \<open>n\<close>-th reading is 2025-01-02 03:04:05 plus \<open>n\<close> seconds, collaborators
  that answer every call with the given results, the message of the end-to-end scenario
  and an initial state with no call made.
\<close>

definition clock0 :: "nat \<Rightarrow> Time" where
  "clock0 n = \<lparr> year = 2025, month = 1, day = 2, hour = 3, minute = 4, second = 5 + n \<rparr>"

definition providers0 ::
  "go_error + MessageAnalysisResult \<Rightarrow> go_error + Reference option list
     \<Rightarrow> go_error + string \<Rightarrow> go_error option \<Rightarrow> Providers" where
  "providers0 an det gen rr =
     \<lparr> AnalyzeMessage = (\<lambda>_. an), DetectReferences = (\<lambda>_. det),
       GenerateDocumentation = (\<lambda>_ _. gen), StoreDocument = (\<lambda>_ _ _. None),
       ReplyToMessage = (\<lambda>_ _. rr), Now = clock0 \<rparr>"

definition analysis0 :: "MessageType \<Rightarrow> real \<Rightarrow> string list \<Rightarrow> MessageAnalysisResult" where
  "analysis0 t x tags =
     \<lparr> r_messageType = t, r_category = ''operations'', r_references = [],
       r_confidenceScore = Finite x, r_suggestedTags = tags \<rparr>"

definition msg0 :: Message where
  "msg0 = \<lparr> m_id = ''M1'', m_threadID = ''T1'', m_sender = ''ann'',
            m_content = MessageContent ''Let's switch to blue-green deploys'',
            m_messageType = ''decision'', m_category = ''other'', m_references = [],
            m_timestamp = clock0 0 \<rparr>"

definition ref0 :: Reference where
  "ref0 = \<lparr> refType = ''document'', ref_value = ''docs/operations/runbook.md'' \<rparr>"

definition w0 :: World where
  "w0 = \<lparr> calls = [], ticks = 0 \<rparr>"

text \<open>
  For the Slack client: the value a string of decimal digits denotes; identifiers
  \<^verbatim>\<open>ID0\<close>, \<^verbatim>\<open>ID1\<close>, ... in the order of generation; a workspace in which every user lookup
  succeeds; a client that has handled no event, and one in which the thread marker
  \<^verbatim>\<open>T1\<close> is registered; a user's event with the given thread marker and timestamp.
\<close>

definition digits_value :: "string \<Rightarrow> nat" where
  "digits_value s = foldl (\<lambda>a ch. 10 * a + (of_char ch - 48)) 0 s"

definition ulid0 :: "nat \<Rightarrow> ID" where
  "ulid0 n = ''ID'' @ Itoa n"

definition slack0 :: "MessageType \<Rightarrow> SlackEnv" where
  "slack0 info = \<lparr> GetUserInfo = (\<lambda>_. Inr ''ann''), GenerateID = ulid0,
                    time_Now = clock0, MessageTypeInformation = info \<rparr>"

definition client0 :: Client where
  "client0 = \<lparr> threadMap = Map.empty, readers = 0, messageCh = [], generated = 0,
               clock = 0 \<rparr>"

definition event0 :: "string \<Rightarrow> string \<Rightarrow> MessageEvent" where
  "event0 thread ts = \<lparr> BotID = [], User = ''U1'', ThreadTimestamp = thread,
                        Timestamp = ts, MsgText = ''hello'' \<rparr>"

definition client1 :: Client where
  "client1 = \<lparr> threadMap = [''T1'' \<mapsto> ulid0 0], readers = 0, messageCh = [],
               generated = 1, clock = 0 \<rparr>"

section \<open>Properties of the value objects\<close>

lemma valid_defaults:
  "MessageType_IsValid MessageTypeIdea" "Category_IsValid CategoryOther"
  by (simp_all add: MessageType_IsValid_def validMessageTypes_def
        Category_IsValid_def validCategories_def)

lemma foldl_AddReference_category: "m_category (foldl AddReference m refs) = m_category m"
  by (induction refs arbitrary: m) (auto simp: AddReference_def split: option.splits)

text \<open>
  C3. The analysis merge \<^verbatim>\<open>updateMessageWithAnalysis\<close> sets the category of the message to
  the category of the analysis when that category is a recognized value, and leaves the
  category the message had when it is not; the merge has no error result.
\<close>

theorem merge_category:
  "m_category (updateMessageWithAnalysis msg analysis) =
     (if Category_IsValid (r_category analysis) then r_category analysis
      else m_category msg)"
  by (simp add: updateMessageWithAnalysis_def foldl_AddReference_category UpdateCategory_def)

theorem merge_category_witness:
  "m_category (updateMessageWithAnalysis
       \<lparr> m_id = ''M1'', m_threadID = ''T1'', m_sender = ''ann'',
         m_content = MessageContent ''hello'', m_messageType = ''idea'',
         m_category = ''product'', m_references = [],
         m_timestamp = \<lparr> year = 2025, month = 1, day = 2, hour = 3, minute = 4, second = 5 \<rparr> \<rparr>
       \<lparr> r_messageType = ''idea'', r_category = ''bogus'', r_references = [],
         r_confidenceScore = Finite 1, r_suggestedTags = [] \<rparr>) = ''product'' \<and>
   m_category (updateMessageWithAnalysis
       \<lparr> m_id = ''M1'', m_threadID = ''T1'', m_sender = ''ann'',
         m_content = MessageContent ''hello'', m_messageType = ''idea'',
         m_category = ''product'', m_references = [],
         m_timestamp = \<lparr> year = 2025, month = 1, day = 2, hour = 3, minute = 4, second = 5 \<rparr> \<rparr>
       \<lparr> r_messageType = ''idea'', r_category = ''operations'', r_references = [],
         r_confidenceScore = Finite 1, r_suggestedTags = [] \<rparr>) = ''operations''"
proof -
  have "\<not> Category_IsValid ''bogus''" "Category_IsValid ''operations''"
    by (simp_all add: Category_IsValid_def validCategories_def CategoryOperations_def
          CategoryDevelopment_def CategoryProduct_def CategoryQualityAssurance_def
          CategoryDataAnalysis_def CategoryOther_def CategoryUnknown_def)
  then show ?thesis by (simp add: merge_category)
qed

text \<open>
  For a confidence that is a number or an infinity, construction with a valid type and
  category fails exactly when the confidence is outside the closed interval from 0 to 1.
\<close>

lemma NewMessageAnalysisResult_ordered_confidence:
  assumes "MessageType_IsValid t" "Category_IsValid c" "x \<noteq> NaN"
  shows "(\<exists>e. NewMessageAnalysisResult t c refs x tags = Inl e) \<longleftrightarrow>
           \<not> (f64_ge x (Finite 0) \<and> f64_ge (Finite 1) x)"
  using assms by (cases x) (auto simp: NewMessageAnalysisResult_def f64_gt_def f64_ge_def)

lemma NewMessageAnalysisResult_finite_confidence:
  assumes "MessageType_IsValid t" "Category_IsValid c"
  shows "(\<exists>e. NewMessageAnalysisResult t c refs (Finite x) tags = Inl e) \<longleftrightarrow>
           (x < 0 \<or> 1 < x)"
  using assms by (auto simp: NewMessageAnalysisResult_def f64_gt_def)

text \<open>
  C7. Construction of an analysis result is to fail for every confidence outside the
  closed interval from 0 to 1. The check \<^verbatim>\<open>confidence < 0 || confidence > 1\<close> is false for
  NaN, so \<^verbatim>\<open>NewMessageAnalysisResult\<close> accepts a NaN confidence and returns a result that
  carries it.
\<close>

theorem confidence_NaN_accepted:
  "NewMessageAnalysisResult MessageTypeIdea CategoryOther [] NaN [] =
     Inr \<lparr> r_messageType = MessageTypeIdea, r_category = CategoryOther, r_references = [],
           r_confidenceScore = NaN, r_suggestedTags = [] \<rparr>"
  by (simp add: NewMessageAnalysisResult_def f64_gt_def valid_defaults)

theorem confidence_NaN_accepted_witness:
  "(case NewMessageAnalysisResult MessageTypeIdea CategoryOther [] NaN [] of
      Inl e \<Rightarrow> False
    | Inr r \<Rightarrow> r_confidenceScore r = NaN \<and> \<not> f64_ge NaN (Finite 0) \<and> \<not> f64_ge (Finite 1) NaN)"
  using confidence_NaN_accepted by (simp add: f64_ge_def f64_gt_def)

lemma TrimSpace_fixed: "leadingSpace s = 0 \<Longrightarrow> trailingSpace s = 0 \<Longrightarrow> TrimSpace s = s"
  by (simp add: TrimSpace_def TrimLeft.simps TrimRight.simps)

lemma TrimSpace_letters:
  "TrimSpace (replicate (Suc n) (CHR ''a'')) = replicate (Suc n) (CHR ''a'')"
proof (rule TrimSpace_fixed)
  show "leadingSpace (replicate (Suc n) (CHR ''a'')) = 0"
    by (simp add: leadingSpace_def spaceRunes_def)
  show "trailingSpace (replicate (Suc n) (CHR ''a'')) = 0"
    unfolding trailingSpace_def spaceRunes_def suffix_to_prefix
    by (simp add: replicate_append_same)
qed

text \<open>
  C10. \<^verbatim>\<open>NewMessageContent\<close> trims the surrounding white space first and returns an error
  exactly when the trimmed text is empty (the error is \<^verbatim>\<open>ErrEmptyContent\<close>); otherwise it
  succeeds with the first 10000 bytes of the trimmed text, which is the whole trimmed text
  when that is no longer than 10000 bytes; so a constructed content has between 1 and
  10000 bytes.
\<close>

theorem NewMessageContent_trim_truncate:
  "((\<exists>e. NewMessageContent text = Inl e) \<longleftrightarrow> TrimSpace text = []) \<and>
   (TrimSpace text = [] \<longrightarrow> NewMessageContent text = Inl ErrEmptyContent) \<and>
   (TrimSpace text \<noteq> [] \<longrightarrow>
      NewMessageContent text = Inr (MessageContent (take 10000 (TrimSpace text)))) \<and>
   (\<forall>c. NewMessageContent text = Inr c \<longrightarrow>
      1 \<le> length (Text c) \<and> length (Text c) \<le> 10000)"
  by (auto simp: NewMessageContent_def MaxContentLength_def Let_def Suc_le_eq)

theorem NewMessageContent_trim_truncate_witness:
  "NewMessageContent [CHR 0x20, CHR 0x09, CHR 0xC2, CHR 0xA0] = Inl ErrEmptyContent \<and>
   NewMessageContent ''  hi there  '' = Inr (MessageContent ''hi there'') \<and>
   NewMessageContent (replicate 10100 (CHR ''a'')) =
     Inr (MessageContent (replicate 10000 (CHR ''a'')))"
proof -
  have a: "TrimSpace [CHR 0x20, CHR 0x09, CHR 0xC2, CHR 0xA0] = []" by code_simp
  have b: "TrimSpace ''  hi there  '' = ''hi there''" by code_simp
  have "TrimSpace (replicate (Suc 10099) (CHR ''a'')) = replicate (Suc 10099) (CHR ''a'')"
    by (rule TrimSpace_letters)
  then have c: "TrimSpace (replicate 10100 (CHR ''a'')) = replicate 10100 (CHR ''a'')"
    by simp
  show ?thesis
    using NewMessageContent_trim_truncate[of "[CHR 0x20, CHR 0x09, CHR 0xC2, CHR 0xA0]"]
      NewMessageContent_trim_truncate[of "''  hi there  ''"]
      NewMessageContent_trim_truncate[of "replicate 10100 (CHR ''a'')"] a b c
    by simp
qed

section \<open>Properties of the pipeline\<close>

lemma stored_append: "stored (xs @ ys) = stored xs @ stored ys"
  by (induction xs rule: stored.induct) auto

lemma sent_append: "sent (xs @ ys) = sent xs @ sent ys"
  by (induction xs rule: sent.induct) auto

lemma detections_append: "detections (xs @ ys) = detections xs @ detections ys"
  by (induction xs rule: detections.induct) auto

lemma documentation_append: "documentation (xs @ ys) = documentation xs @ documentation ys"
  by (induction xs rule: documentation.induct) auto

lemma replies_append: "replies (xs @ ys) = replies xs @ replies ys"
  by (induction xs rule: replies.induct) auto

lemmas calls_append = stored_append sent_append detections_append documentation_append
  replies_append

lemma foldl_AddReference_id: "m_id (foldl AddReference m refs) = m_id m"
  by (induction refs arbitrary: m) (auto simp: AddReference_def split: option.splits)

lemma foldl_AddReference_content: "m_content (foldl AddReference m refs) = m_content m"
  by (induction refs arbitrary: m) (auto simp: AddReference_def split: option.splits)

lemma foldl_AddReference_references:
  "m_references (foldl AddReference m refs) = m_references m @ filter (\<lambda>r. r \<noteq> None) refs"
  by (induction refs arbitrary: m) (auto simp: AddReference_def split: option.splits)

lemma merge_id: "m_id (updateMessageWithAnalysis msg a) = m_id msg"
  by (simp add: updateMessageWithAnalysis_def foldl_AddReference_id UpdateCategory_def)

lemma merge_content: "m_content (updateMessageWithAnalysis msg a) = m_content msg"
  by (simp add: updateMessageWithAnalysis_def foldl_AddReference_content UpdateCategory_def)

lemma reply_to_eq:
  "reply_to env msg reply w =
     (ReplyToMessage env (m_id msg) reply,
      w\<lparr> calls := calls w @
            [ReplyToMessage_call (m_id msg) reply (ReplyToMessage env (m_id msg) reply)] \<rparr>)"
  by (simp add: reply_to_def called_def Let_def)

lemma CreateDocumentation_effects:
  assumes "CreateDocumentation env ctx t c content refs w = (r, w1)"
  shows "sent (calls w1) = sent (calls w)"
    and "detections (calls w1) = detections (calls w)"
    and "r \<noteq> None \<Longrightarrow> stored (calls w1) = stored (calls w)"
  using assms
  by (auto simp: CreateDocumentation_def called_def Let_def calls_append
      split: option.splits sum.splits)

text \<open>The shape shared by the three documenting handlers.\<close>

lemma document_then_reply_error:
  assumes "(case createDocumentation env ctx msg w of
              (Some err, w1) \<Rightarrow> (Some (fmt_Errorf p err), w1)
            | (None, w1) \<Rightarrow> reply_to env msg reply w1) = (Some e, w')"
  shows "sent (calls w') = sent (calls w) \<and>
         (stored (calls w') = stored (calls w) \<or>
          (\<exists>mid reply. last (calls w') = ReplyToMessage_call mid reply (Some e)))"
proof (cases "createDocumentation env ctx msg w")
  case (Pair r w1)
  then have cd: "CreateDocumentation env ctx (m_messageType msg) (m_category msg)
      (Text (m_content msg)) (References msg) w = (r, w1)"
    by (simp add: createDocumentation_def)
  show ?thesis
  proof (cases r)
    case (Some err)
    with Pair assms have "w' = w1" by simp
    with CreateDocumentation_effects[OF cd] Some show ?thesis by simp
  next
    case None
    with Pair assms have "reply_to env msg reply w1 = (Some e, w')" by simp
    then have "ReplyToMessage env (m_id msg) reply = Some e"
      and "calls w' = calls w1 @ [ReplyToMessage_call (m_id msg) reply (Some e)]"
      by (auto simp: reply_to_eq)
    with CreateDocumentation_effects(1)[OF cd] show ?thesis by (simp add: calls_append)
  qed
qed

lemma document_then_reply_detections:
  assumes "(case createDocumentation env ctx msg w of
              (Some err, w1) \<Rightarrow> (Some (fmt_Errorf p err), w1)
            | (None, w1) \<Rightarrow> reply_to env msg reply w1) = (r, w')"
  shows "detections (calls w') = detections (calls w)"
proof (cases "createDocumentation env ctx msg w")
  case (Pair r1 w1)
  then have cd: "CreateDocumentation env ctx (m_messageType msg) (m_category msg)
      (Text (m_content msg)) (References msg) w = (r1, w1)"
    by (simp add: createDocumentation_def)
  from Pair assms CreateDocumentation_effects(2)[OF cd] show ?thesis
    by (cases r1) (auto simp: reply_to_eq calls_append)
qed

lemma Handle_error_effects:
  assumes "Handle h env ctx msg w = (Some err, w')"
  shows "sent (calls w') = sent (calls w) \<and>
         (stored (calls w') = stored (calls w) \<or>
          (\<exists>mid reply. last (calls w') = ReplyToMessage_call mid reply (Some err)))"
proof (cases h)
  case ideaHandler
  with assms have "ideaHandler_Handle env ctx msg w = (Some err, w')" by simp
  then show ?thesis
    unfolding ideaHandler_Handle_def by (rule document_then_reply_error)
next
  case decisionHandler
  with assms have "decisionHandler_Handle env ctx msg w = (Some err, w')" by simp
  then show ?thesis
    unfolding decisionHandler_Handle_def by (rule document_then_reply_error)
next
  case statusHandler
  with assms have "statusHandler_Handle env ctx msg w = (Some err, w')" by simp
  then show ?thesis
    unfolding statusHandler_Handle_def by (rule document_then_reply_error)
next
  case unknownHandler
  with assms show ?thesis by (simp add: unknownHandler_Handle_def)
qed

lemma Handle_detections:
  assumes "Handle h env ctx msg w = (r, w')"
  shows "detections (calls w') = detections (calls w)"
proof (cases h)
  case ideaHandler
  with assms have "ideaHandler_Handle env ctx msg w = (r, w')" by simp
  then show ?thesis
    unfolding ideaHandler_Handle_def by (rule document_then_reply_detections)
next
  case decisionHandler
  with assms have "decisionHandler_Handle env ctx msg w = (r, w')" by simp
  then show ?thesis
    unfolding decisionHandler_Handle_def by (rule document_then_reply_detections)
next
  case statusHandler
  with assms have "statusHandler_Handle env ctx msg w = (r, w')" by simp
  then show ?thesis
    unfolding statusHandler_Handle_def by (rule document_then_reply_detections)
next
  case unknownHandler
  with assms show ?thesis by (simp add: unknownHandler_Handle_def)
qed

lemma HandleWithAnalysis_eq:
  "unknownHandler_HandleWithAnalysis env ctx msg a w =
     (if f64_ge (r_confidenceScore a) (Finite 0.8) \<and> r_suggestedTags a \<noteq> []
      then (ReplyToMessage env (m_id msg) (suggestion a),
            w\<lparr> calls := calls w @
                  [ReplyToMessage_call (m_id msg) (suggestion a)
                     (ReplyToMessage env (m_id msg) (suggestion a))] \<rparr>)
      else (None, w))"
  by (simp add: unknownHandler_HandleWithAnalysis_def IsHighConfidence_def
        HasSuggestedTags_def reply_to_eq)

lemma route_error_effects:
  assumes "route env ctx msg a w = (Returned (Some err), w')"
  shows "sent (calls w') = sent (calls w) \<and>
         (stored (calls w') = stored (calls w) \<or>
          (\<exists>mid reply. last (calls w') = ReplyToMessage_call mid reply (Some err)))"
proof (cases "handlers (r_messageType a)")
  case None
  with assms show ?thesis by (simp add: route_def)
next
  case (Some h)
  show ?thesis
  proof (cases "as_SuggestionsHandler h")
    case True
    with assms Some have "unknownHandler_HandleWithAnalysis env ctx msg a w = (Some err, w')"
      by (auto simp: route_def split: prod.splits)
    then show ?thesis by (auto simp: HandleWithAnalysis_eq calls_append split: if_splits)
  next
    case False
    with assms Some have "Handle h env ctx msg w = (Some err, w')"
      by (auto simp: route_def split: prod.splits)
    then show ?thesis by (rule Handle_error_effects)
  qed
qed

lemma route_detections:
  assumes "route env ctx msg a w = (out, w')"
  shows "detections (calls w') = detections (calls w)"
proof (cases "handlers (r_messageType a)")
  case None
  with assms show ?thesis by (simp add: route_def)
next
  case (Some h)
  show ?thesis
  proof (cases "as_SuggestionsHandler h")
    case True
    with assms Some obtain r where
      "unknownHandler_HandleWithAnalysis env ctx msg a w = (r, w')"
      by (auto simp: route_def split: prod.splits)
    then show ?thesis by (auto simp: HandleWithAnalysis_eq calls_append split: if_splits)
  next
    case False
    with assms Some obtain r where "Handle h env ctx msg w = (r, w')"
      by (auto simp: route_def split: prod.splits)
    then show ?thesis by (rule Handle_detections)
  qed
qed

text \<open>\<^verbatim>\<open>ProcessMessage\<close> once the analysis has succeeded.\<close>

lemma ProcessMessage_analysed:
  assumes "AnalyzeMessage env (Text (m_content msg)) = Inr a"
  shows "ProcessMessage env (Some c) (Some msg) w =
    (let t = Text (m_content msg);
         m1 = updateMessageWithAnalysis msg a;
         w1 = w\<lparr> calls := calls w @ [AnalyzeMessage_call t] \<rparr>;
         w2 = w\<lparr> calls := calls w @ [AnalyzeMessage_call t, DetectReferences_call t] \<rparr>
     in if m_references m1 \<noteq> []
        then (case route env (Some c) m1 a w1 of (out, w3) \<Rightarrow> (out, Some m1, w3))
        else (case DetectReferences env t of
                Inl e \<Rightarrow>
                  (Returned (Some (fmt_Errorf ''failed to detect references'' e)), Some m1, w2)
              | Inr refs \<Rightarrow>
                  (case route env (Some c) (foldl AddReference m1 refs) a w2 of
                     (out, w3) \<Rightarrow> (out, Some (foldl AddReference m1 refs), w3))))"
  using assms
  by (simp add: ProcessMessage_def analyzeMessage_def detectAndAddReferences_def
        HasReferences_def called_def Let_def merge_content split: sum.splits)

lemma ProcessMessage_analysis_failed:
  assumes "AnalyzeMessage env (Text (m_content msg)) = Inl e"
  shows "ProcessMessage env (Some c) (Some msg) w =
     (Returned (Some (fmt_Errorf ''failed to analyze message''
                        (fmt_Errorf ''AI analysis failed'' e))),
      Some msg, w\<lparr> calls := calls w @ [AnalyzeMessage_call (Text (m_content msg))] \<rparr>)"
  using assms by (simp add: ProcessMessage_def analyzeMessage_def called_def Let_def)

lemma process_error_general:
  assumes "ProcessMessage env ctx msg w = (Returned (Some err), msg', w')"
  shows "sent (calls w') = sent (calls w) \<and>
         (stored (calls w') = stored (calls w) \<or>
          (\<exists>mid reply. last (calls w') = ReplyToMessage_call mid reply (Some err)))"
proof (cases ctx)
  case None
  with assms show ?thesis by (simp add: ProcessMessage_def)
next
  case (Some c)
  note ctx = this
  show ?thesis
  proof (cases msg)
    case None
    with assms ctx show ?thesis by (simp add: ProcessMessage_def)
  next
    case (Some m)
    note msg = this
    show ?thesis
    proof (cases "AnalyzeMessage env (Text (m_content m))")
      case (Inl e)
      from assms ProcessMessage_analysis_failed[OF Inl, of c w] ctx msg show ?thesis
        by (auto simp: calls_append)
    next
      case (Inr a)
      let ?t = "Text (m_content m)"
      let ?m1 = "updateMessageWithAnalysis m a"
      let ?w1 = "w\<lparr> calls := calls w @ [AnalyzeMessage_call ?t] \<rparr>"
      let ?w2 = "w\<lparr> calls := calls w @ [AnalyzeMessage_call ?t, DetectReferences_call ?t] \<rparr>"
      note pm = ProcessMessage_analysed[OF Inr, of c w, unfolded Let_def]
      show ?thesis
      proof (cases "m_references ?m1 \<noteq> []")
        case True
        with assms ctx msg pm have "route env (Some c) ?m1 a ?w1 = (Returned (Some err), w')"
          by (auto split: prod.splits)
        from route_error_effects[OF this] show ?thesis by (simp add: calls_append)
      next
        case False
        note nr = this
        show ?thesis
        proof (cases "DetectReferences env ?t")
          case (Inl e)
          with assms ctx msg pm nr have "w' = ?w2" by auto
          then show ?thesis by (simp add: calls_append)
        next
          case (Inr refs)
          with assms ctx msg pm nr
          have "route env (Some c) (foldl AddReference ?m1 refs) a ?w2 = (Returned (Some err), w')"
            by (auto split: prod.splits)
          from route_error_effects[OF this] show ?thesis by (simp add: calls_append)
        qed
      qed
    qed
  qed
qed

lemmas fixture_defs = providers0_def analysis0_def msg0_def ref0_def w0_def clock0_def

lemmas eval_defs = ProcessMessage_def route_def analyzeMessage_def updateMessageWithAnalysis_def
  detectAndAddReferences_def handlers_def unknownHandler_HandleWithAnalysis_def
  ideaHandler_Handle_def decisionHandler_Handle_def statusHandler_Handle_def
  unknownHandler_Handle_def createDocumentation_def CreateDocumentation_def reply_to_def
  called_def linked_def HasReferences_def References_def UpdateCategory_def AddReference_def
  Category_IsValid_def validCategories_def IsHighConfidence_def HasSuggestedTags_def
  f64_ge_def f64_gt_def suggestion_def Let_def
  MessageTypeIdea_def MessageTypeDecision_def MessageTypeStatus_def MessageTypeUnknown_def
  CategoryOperations_def CategoryDevelopment_def CategoryProduct_def
  CategoryQualityAssurance_def CategoryDataAnalysis_def CategoryOther_def CategoryUnknown_def

lemma path_operations:
  "generatePath ''decision'' ''operations''
     \<lparr> year = 2025, month = Suc 0, day = 2, hour = 3, minute = 4, second = 6 \<rparr> =
   ''docs/operations/decision-20250102-030406.md''"
  by (simp add: generatePath_def Format_20060102_150405_def pad_def Itoa.simps
        filepath_Join_def Clean_def)

text \<open>
  The claim C9 as stated fails: when the document has been stored and the chat provider
  then fails to send the reply, \<^verbatim>\<open>ProcessMessage\<close> returns that error although a document
  was stored.
\<close>

theorem process_error_after_store:
  "(case ProcessMessage
          (providers0 (Inr (analysis0 ''decision'' 0.92 [])) (Inr [])
             (Inr ''# Decision'') (Some (errors_New ''channel_not_found'')))
          (Some Background) (Some msg0) w0 of
      (out, m, w') \<Rightarrow>
        out = Returned (Some (errors_New ''channel_not_found'')) \<and>
        stored (calls w') =
          [(''docs/operations/decision-20250102-030406.md'', ''# Decision'')] \<and>
        sent (calls w') = [])"
  by (simp add: eval_defs fixture_defs path_operations)

text \<open>
  C9, amended. If \<^verbatim>\<open>ProcessMessage\<close> returns an error, no reply was sent for the message,
  and no document was stored unless the error is the chat provider's failure to send the
  reply, the last call made, after the document had been stored (it is not rolled back).
  A failure of the classification oracle is returned as an error with only the analysis
  call made; a failure of documentation generation makes each documenting handler return
  an error with only the generation call made, so neither a store nor a reply.
\<close>

theorem process_error_effects:
  "(\<forall>err msg' w'. ProcessMessage env ctx msg w = (Returned (Some err), msg', w') \<longrightarrow>
      sent (calls w') = sent (calls w) \<and>
      (stored (calls w') = stored (calls w) \<or>
       (\<exists>mid reply. last (calls w') = ReplyToMessage_call mid reply (Some err)))) \<and>
   (\<forall>c (m::Message) e. AnalyzeMessage env (Text (m_content m)) = Inl e \<longrightarrow>
      ProcessMessage env (Some c) (Some m) w =
        (Returned (Some (fmt_Errorf ''failed to analyze message''
                           (fmt_Errorf ''AI analysis failed'' e))),
         Some m, w\<lparr> calls := calls w @ [AnalyzeMessage_call (Text (m_content m))] \<rparr>)) \<and>
   (\<forall>h c (m::Message) e. h \<noteq> unknownHandler \<and>
      GenerateDocumentation env (Text (m_content m))
        \<lparr> md_type = m_messageType m, md_category = m_category m,
          md_created_at = Now env (ticks w), md_references = m_references m \<rparr> = Inl e \<longrightarrow>
      (\<exists>err. Handle h env (Some c) m w =
         (Some err,
          w\<lparr> calls := calls w @
                [GenerateDocumentation_call (Text (m_content m))
                   \<lparr> md_type = m_messageType m, md_category = m_category m,
                     md_created_at = Now env (ticks w), md_references = m_references m \<rparr>],
             ticks := Suc (ticks w) \<rparr>)))"
proof (intro conjI allI impI)
  fix err msg' w'
  assume "ProcessMessage env ctx msg w = (Returned (Some err), msg', w')"
  then have g: "sent (calls w') = sent (calls w) \<and>
      (stored (calls w') = stored (calls w) \<or>
       (\<exists>mid reply. last (calls w') = ReplyToMessage_call mid reply (Some err)))"
    by (rule process_error_general)
  from g show "sent (calls w') = sent (calls w)" ..
  from g show "stored (calls w') = stored (calls w) \<or>
       (\<exists>mid reply. last (calls w') = ReplyToMessage_call mid reply (Some err))" ..
next
  fix c and m :: Message and e
  assume "AnalyzeMessage env (Text (m_content m)) = Inl e"
  then show "ProcessMessage env (Some c) (Some m) w =
        (Returned (Some (fmt_Errorf ''failed to analyze message''
                           (fmt_Errorf ''AI analysis failed'' e))),
         Some m, w\<lparr> calls := calls w @ [AnalyzeMessage_call (Text (m_content m))] \<rparr>)"
    by (rule ProcessMessage_analysis_failed)
next
  fix h c and m :: Message and e
  assume a: "h \<noteq> unknownHandler \<and>
      GenerateDocumentation env (Text (m_content m))
        \<lparr> md_type = m_messageType m, md_category = m_category m,
          md_created_at = Now env (ticks w), md_references = m_references m \<rparr> = Inl e"
  then have cd: "createDocumentation env (Some c) m w =
      (Some (fmt_Errorf ''failed to generate documentation'' e),
       w\<lparr> calls := calls w @
                [GenerateDocumentation_call (Text (m_content m))
                   \<lparr> md_type = m_messageType m, md_category = m_category m,
                     md_created_at = Now env (ticks w), md_references = m_references m \<rparr>],
             ticks := Suc (ticks w) \<rparr>)"
    by (simp add: createDocumentation_def CreateDocumentation_def References_def called_def Let_def)
  from a show "\<exists>err. Handle h env (Some c) m w =
         (Some err,
          w\<lparr> calls := calls w @
                [GenerateDocumentation_call (Text (m_content m))
                   \<lparr> md_type = m_messageType m, md_category = m_category m,
                     md_created_at = Now env (ticks w), md_references = m_references m \<rparr>],
             ticks := Suc (ticks w) \<rparr>)"
    by (cases h) (simp_all add: ideaHandler_Handle_def decisionHandler_Handle_def
          statusHandler_Handle_def cd)
qed

theorem process_error_effects_witness:
  "(case ProcessMessage
          (providers0 (Inr (analysis0 ''decision'' 0.92 [])) (Inr [])
             (Inr ''# Decision'') (Some (errors_New ''channel_not_found'')))
          (Some Background) (Some msg0) w0 of
      (out, m, w') \<Rightarrow>
        out = Returned (Some (errors_New ''channel_not_found'')) \<and> sent (calls w') = []) \<and>
   ProcessMessage
     (providers0 (Inl (errors_New ''timeout'')) (Inr []) (Inr ''# Decision'') None)
     (Some Background) (Some msg0) w0 =
     (Returned (Some (fmt_Errorf ''failed to analyze message''
                        (fmt_Errorf ''AI analysis failed'' (errors_New ''timeout'')))),
      Some msg0,
      \<lparr> calls = [AnalyzeMessage_call ''Let's switch to blue-green deploys''], ticks = 0 \<rparr>) \<and>
   (\<exists>err. Handle decisionHandler
      (providers0 (Inr (analysis0 ''decision'' 0.92 [])) (Inr [])
         (Inl (errors_New ''model overloaded'')) None)
      (Some Background) msg0 w0 =
      (Some err,
       \<lparr> calls = [GenerateDocumentation_call ''Let's switch to blue-green deploys''
                    \<lparr> md_type = ''decision'', md_category = ''other'',
                      md_created_at = clock0 0, md_references = [] \<rparr>],
         ticks = 1 \<rparr>))"
proof -
  let ?envR = "providers0 (Inr (analysis0 ''decision'' 0.92 [])) (Inr [])
             (Inr ''# Decision'') (Some (errors_New ''channel_not_found''))"
  let ?envA = "providers0 (Inl (errors_New ''timeout'')) (Inr []) (Inr ''# Decision'') None"
  let ?envG = "providers0 (Inr (analysis0 ''decision'' 0.92 [])) (Inr [])
         (Inl (errors_New ''model overloaded'')) None"
  obtain out m w' where r: "ProcessMessage ?envR (Some Background) (Some msg0) w0 = (out, m, w')"
    by (cases "ProcessMessage ?envR (Some Background) (Some msg0) w0") auto
  have "fst (ProcessMessage ?envR (Some Background) (Some msg0) w0) =
      Returned (Some (errors_New ''channel_not_found''))"
    by (simp add: eval_defs fixture_defs)
  with r have out: "out = Returned (Some (errors_New ''channel_not_found''))" by simp
  from process_error_effects[of ?envR "Some Background" "Some msg0" w0] r out
  have 1: "sent (calls w') = sent (calls w0)" by blast
  have a: "AnalyzeMessage ?envA (Text (m_content msg0)) = Inl (errors_New ''timeout'')"
    by (simp add: fixture_defs)
  from process_error_effects[of ?envA "Some Background" "Some msg0" w0] a
  have 2: "ProcessMessage ?envA (Some Background) (Some msg0) w0 =
     (Returned (Some (fmt_Errorf ''failed to analyze message''
                        (fmt_Errorf ''AI analysis failed'' (errors_New ''timeout'')))),
      Some msg0, w0\<lparr> calls := calls w0 @ [AnalyzeMessage_call (Text (m_content msg0))] \<rparr>)"
    by blast
  have g: "decisionHandler \<noteq> unknownHandler \<and>
     GenerateDocumentation ?envG (Text (m_content msg0))
        \<lparr> md_type = m_messageType msg0, md_category = m_category msg0,
          md_created_at = Now ?envG (ticks w0), md_references = m_references msg0 \<rparr> =
       Inl (errors_New ''model overloaded'')"
    by (simp add: fixture_defs)
  from process_error_effects[of ?envG "Some Background" "Some msg0" w0] g
  have 3: "\<exists>err. Handle decisionHandler ?envG (Some Background) msg0 w0 =
         (Some err,
          w0\<lparr> calls := calls w0 @
                [GenerateDocumentation_call (Text (m_content msg0))
                   \<lparr> md_type = m_messageType msg0, md_category = m_category msg0,
                     md_created_at = Now ?envG (ticks w0), md_references = m_references msg0 \<rparr>],
             ticks := Suc (ticks w0) \<rparr>)"
    by blast
  from r out 1 2 3 show ?thesis
    by (simp add: fixture_defs)
qed


text \<open>
  C6. Once the analysis has succeeded, \<^verbatim>\<open>ProcessMessage\<close> calls the reference detection
  exactly when the message has no reference after the merge, and then once, on the text
  of the message. The references after processing are those after the merge when there
  were any, and the non-nil detected ones otherwise; \<^verbatim>\<open>detectAndAddReferences\<close> keeps the
  references a message has as a prefix of the new ones. When the detection fails, the
  error is returned, wrapped, and nothing is called after the detection.
\<close>

theorem reference_detection:
  assumes "AnalyzeMessage env (Text (m_content msg)) = Inr a"
    and "ProcessMessage env (Some c) (Some msg) w = (out, msg', w')"
  shows "(let t = Text (m_content msg); m1 = updateMessageWithAnalysis msg a in
     detections (calls w') =
       detections (calls w) @ (if m_references m1 = [] then [t] else []) \<and>
     (m_references m1 \<noteq> [] \<longrightarrow> map_option m_references msg' = Some (m_references m1)) \<and>
     (m_references m1 = [] \<longrightarrow>
        (case DetectReferences env t of
           Inr refs \<Rightarrow>
             map_option m_references msg' = Some (filter (\<lambda>r. r \<noteq> None) refs)
         | Inl e \<Rightarrow>
             out = Returned (Some (fmt_Errorf ''failed to detect references'' e)) \<and>
             msg' = Some m1 \<and>
             calls w' = calls w @ [AnalyzeMessage_call t, DetectReferences_call t])) \<and>
     (\<forall>(m::Message) w1 r m2 w2. detectAndAddReferences env m w1 = (r, m2, w2) \<longrightarrow>
        prefix (m_references m) (m_references m2)))"
proof -
  let ?t = "Text (m_content msg)"
  let ?m1 = "updateMessageWithAnalysis msg a"
  let ?w1 = "w\<lparr> calls := calls w @ [AnalyzeMessage_call ?t] \<rparr>"
  let ?w2 = "w\<lparr> calls := calls w @ [AnalyzeMessage_call ?t, DetectReferences_call ?t] \<rparr>"
  note pm = ProcessMessage_analysed[OF assms(1), of c w, unfolded Let_def]
  have keep: "\<forall>(m::Message) w1 r m2 w2. detectAndAddReferences env m w1 = (r, m2, w2) \<longrightarrow>
        prefix (m_references m) (m_references m2)"
    by (auto simp: detectAndAddReferences_def Let_def foldl_AddReference_references
        split: sum.splits)
  have main: "detections (calls w') =
       detections (calls w) @ (if m_references ?m1 = [] then [?t] else []) \<and>
     (m_references ?m1 \<noteq> [] \<longrightarrow> map_option m_references msg' = Some (m_references ?m1)) \<and>
     (m_references ?m1 = [] \<longrightarrow>
        (case DetectReferences env ?t of
           Inr refs \<Rightarrow>
             map_option m_references msg' = Some (filter (\<lambda>r. r \<noteq> None) refs)
         | Inl e \<Rightarrow>
             out = Returned (Some (fmt_Errorf ''failed to detect references'' e)) \<and>
             msg' = Some ?m1 \<and>
             calls w' = calls w @ [AnalyzeMessage_call ?t, DetectReferences_call ?t]))"
  proof (cases "m_references ?m1 \<noteq> []")
    case True
    with assms(2) pm have r: "route env (Some c) ?m1 a ?w1 = (out, w')" and "msg' = Some ?m1"
      by (auto split: prod.splits)
    with route_detections[OF r] True show ?thesis by (simp add: calls_append)
  next
    case False
    note nr = this
    show ?thesis
    proof (cases "DetectReferences env ?t")
      case (Inl e)
      with assms(2) pm nr show ?thesis by (auto simp: calls_append)
    next
      case (Inr refs)
      with assms(2) pm nr
      have r: "route env (Some c) (foldl AddReference ?m1 refs) a ?w2 = (out, w')"
        and "msg' = Some (foldl AddReference ?m1 refs)"
        by (auto split: prod.splits)
      with route_detections[OF r] nr Inr show ?thesis
        by (simp add: calls_append foldl_AddReference_references)
    qed
  qed
  from main keep show ?thesis by (simp add: Let_def)
qed

theorem reference_detection_witness:
  "(case ProcessMessage
          (providers0 (Inr (analysis0 ''unknown'' 0.5 [])) (Inr [None, Some ref0])
             (Inr ''# Decision'') None)
          (Some Background) (Some msg0) w0 of
      (out, m, w') \<Rightarrow>
        detections (calls w') = [''Let's switch to blue-green deploys''] \<and>
        map_option m_references m = Some [Some ref0]) \<and>
   (case ProcessMessage
          (providers0 (Inr (analysis0 ''unknown'' 0.5 [])) (Inr [None, Some ref0])
             (Inr ''# Decision'') None)
          (Some Background) (Some (msg0\<lparr> m_references := [Some ref0] \<rparr>)) w0 of
      (out, m, w') \<Rightarrow>
        detections (calls w') = [] \<and> map_option m_references m = Some [Some ref0]) \<and>
   (case ProcessMessage
          (providers0 (Inr (analysis0 ''unknown'' 0.5 [])) (Inl (errors_New ''timeout''))
             (Inr ''# Decision'') None)
          (Some Background) (Some msg0) w0 of
      (out, m, w') \<Rightarrow>
        out = Returned (Some (fmt_Errorf ''failed to detect references''
                                (errors_New ''timeout''))) \<and>
        calls w' = [AnalyzeMessage_call ''Let's switch to blue-green deploys'',
                    DetectReferences_call ''Let's switch to blue-green deploys''])"
proof -
  let ?a = "analysis0 ''unknown'' 0.5 []"
  let ?e1 = "providers0 (Inr ?a) (Inr [None, Some ref0]) (Inr ''# Decision'') None"
  let ?e2 = "providers0 (Inr ?a) (Inl (errors_New ''timeout'')) (Inr ''# Decision'') None"
  let ?msgr = "msg0\<lparr> m_references := [Some ref0] \<rparr>"
  have m1: "m_references (updateMessageWithAnalysis msg0 ?a) = []"
    "m_references (updateMessageWithAnalysis ?msgr ?a) = [Some ref0]"
    by (simp_all add: updateMessageWithAnalysis_def UpdateCategory_def fixture_defs)
  obtain o1 n1 v1 where r1: "ProcessMessage ?e1 (Some Background) (Some msg0) w0 = (o1, n1, v1)"
    by (cases "ProcessMessage ?e1 (Some Background) (Some msg0) w0") auto
  obtain o2 n2 v2 where r2: "ProcessMessage ?e1 (Some Background) (Some ?msgr) w0 = (o2, n2, v2)"
    by (cases "ProcessMessage ?e1 (Some Background) (Some ?msgr) w0") auto
  obtain o3 n3 v3 where r3: "ProcessMessage ?e2 (Some Background) (Some msg0) w0 = (o3, n3, v3)"
    by (cases "ProcessMessage ?e2 (Some Background) (Some msg0) w0") auto
  have a1: "AnalyzeMessage ?e1 (Text (m_content msg0)) = Inr ?a"
    and a2: "AnalyzeMessage ?e1 (Text (m_content ?msgr)) = Inr ?a"
    and a3: "AnalyzeMessage ?e2 (Text (m_content msg0)) = Inr ?a"
    by (simp_all add: providers0_def)
  have d: "DetectReferences ?e1 (Text (m_content msg0)) = Inr [None, Some ref0]"
    "DetectReferences ?e2 (Text (m_content msg0)) = Inl (errors_New ''timeout'')"
    by (simp_all add: providers0_def)
  from reference_detection[OF a1 r1] m1 d
  have 1: "detections (calls v1) = detections (calls w0) @ [Text (m_content msg0)]"
    "map_option m_references n1 = Some [Some ref0]"
    by (simp_all add: Let_def)
  from reference_detection[OF a2 r2] m1
  have 2: "detections (calls v2) = detections (calls w0)"
    "map_option m_references n2 = Some [Some ref0]"
    by (simp_all add: Let_def)
  from reference_detection[OF a3 r3] m1 d
  have 3: "o3 = Returned (Some (fmt_Errorf ''failed to detect references''
                                  (errors_New ''timeout'')))"
    "calls v3 = calls w0 @ [AnalyzeMessage_call (Text (m_content msg0)),
                            DetectReferences_call (Text (m_content msg0))]"
    by (simp_all add: Let_def)
  from r1 r2 r3 1 2 3 show ?thesis by (simp add: msg0_def w0_def)
qed


lemma tag_lines_contains:
  "tag \<in> set tags \<Longrightarrow> sublist (''- #'' @ tag @ [CHR 0x0A]) (tag_lines tags)"
proof (induction tags)
  case Nil
  then show ?case by simp
next
  case (Cons t ts)
  show ?case
  proof (cases "tag = t")
    case True
    have "sublist (''- #'' @ t @ [CHR 0x0A]) ((''- #'' @ t @ [CHR 0x0A]) @ tag_lines ts)"
      by (rule sublist_append_rightI)
    with True show ?thesis by simp
  next
    case False
    with Cons have "sublist (''- #'' @ tag @ [CHR 0x0A]) (tag_lines ts)" by simp
    then have "sublist (''- #'' @ tag @ [CHR 0x0A]) ((''- #'' @ t @ [CHR 0x0A]) @ tag_lines ts)"
      by (meson sublist_append)
    then show ?thesis by simp
  qed
qed

lemma suggestion_contains:
  assumes "tag \<in> set (r_suggestedTags a)"
  shows "sublist (''- #'' @ tag @ [CHR 0x0A]) (suggestion a)"
proof -
  from assms have "sublist (''- #'' @ tag @ [CHR 0x0A]) (tag_lines (r_suggestedTags a))"
    by (rule tag_lines_contains)
  then show ?thesis unfolding suggestion_def by (meson sublist_append)
qed

lemma suggestion_contains_Cons:
  "tag \<in> set (r_suggestedTags a) \<Longrightarrow>
     sublist (CHR ''-'' # CHR '' '' # CHR ''#'' # tag @ [CHR 0x0A]) (suggestion a)"
  using suggestion_contains[of tag a] by simp

lemma route_unknown:
  assumes "r_messageType a = MessageTypeUnknown"
  shows "route env ctx m a w =
     (if f64_ge (r_confidenceScore a) (Finite 0.8) \<and> r_suggestedTags a \<noteq> []
      then (Returned (ReplyToMessage env (m_id m) (suggestion a)),
            w\<lparr> calls := calls w @
                  [ReplyToMessage_call (m_id m) (suggestion a)
                     (ReplyToMessage env (m_id m) (suggestion a))] \<rparr>)
      else (Returned None, w))"
  using assms
  by (simp add: route_def handlers_def HandleWithAnalysis_eq MessageTypeIdea_def
        MessageTypeDecision_def MessageTypeStatus_def MessageTypeUnknown_def)

text \<open>
  C4. A message whose analysis has type unknown and that reaches the routing step (the
  reference detection, if called, did not fail) gets exactly one reply call, with the
  suggestion text, when the confidence is at least 0.8 and there are suggested tags, and
  no reply call otherwise; the suggestion text has a line \<^verbatim>\<open>- #tag\<close> for each suggested tag;
  no documentation call (generation or store) is made. The reply is handed to the chat
  provider, whose result \<^verbatim>\<open>ProcessMessage\<close> returns.
\<close>

theorem unknown_routing:
  assumes "AnalyzeMessage env (Text (m_content msg)) = Inr a"
    and "r_messageType a = MessageTypeUnknown"
    and "m_references (updateMessageWithAnalysis msg a) \<noteq> [] \<or>
         (\<exists>refs. DetectReferences env (Text (m_content msg)) = Inr refs)"
    and "ProcessMessage env (Some c) (Some msg) w = (out, msg', w')"
  shows "(let res = ReplyToMessage env (m_id msg) (suggestion a) in
     replies (calls w') = replies (calls w) @
       (if f64_ge (r_confidenceScore a) (Finite 0.8) \<and> r_suggestedTags a \<noteq> []
        then [ReplyToMessage_call (m_id msg) (suggestion a) res] else []) \<and>
     out = Returned (if f64_ge (r_confidenceScore a) (Finite 0.8) \<and> r_suggestedTags a \<noteq> []
                     then res else None) \<and>
     (\<forall>tag \<in> set (r_suggestedTags a). sublist (''- #'' @ tag @ [CHR 0x0A]) (suggestion a)) \<and>
     documentation (calls w') = documentation (calls w))"
proof -
  let ?t = "Text (m_content msg)"
  let ?m1 = "updateMessageWithAnalysis msg a"
  note pm = ProcessMessage_analysed[OF assms(1), of c w, unfolded Let_def]
  have tags: "\<forall>tag \<in> set (r_suggestedTags a). sublist (''- #'' @ tag @ [CHR 0x0A]) (suggestion a)"
    by (simp add: suggestion_contains_Cons)
  have main: "replies (calls w') = replies (calls w) @
       (if f64_ge (r_confidenceScore a) (Finite 0.8) \<and> r_suggestedTags a \<noteq> []
        then [ReplyToMessage_call (m_id msg) (suggestion a)
                (ReplyToMessage env (m_id msg) (suggestion a))] else []) \<and>
     out = Returned (if f64_ge (r_confidenceScore a) (Finite 0.8) \<and> r_suggestedTags a \<noteq> []
                     then ReplyToMessage env (m_id msg) (suggestion a) else None) \<and>
     documentation (calls w') = documentation (calls w)"
  proof (cases "m_references ?m1 \<noteq> []")
    case True
    with assms(4) pm show ?thesis
      by (auto simp: route_unknown[OF assms(2)] calls_append merge_id split: if_splits)
  next
    case False
    with assms(3) obtain refs where "DetectReferences env ?t = Inr refs" by auto
    with False assms(4) pm show ?thesis
      by (auto simp: route_unknown[OF assms(2)] calls_append merge_id foldl_AddReference_id
          split: if_splits)
  qed
  from main tags show ?thesis by (simp add: Let_def)
qed

theorem unknown_routing_witness:
  "(case ProcessMessage
          (providers0 (Inr (analysis0 ''unknown'' 0.9 [''deploy'', ''infra''])) (Inr [])
             (Inr ''# Decision'') None)
          (Some Background) (Some msg0) w0 of
      (out, m, w') \<Rightarrow>
        out = Returned None \<and>
        replies (calls w') =
          [ReplyToMessage_call ''M1''
             ([CHR 0xF0, CHR 0x9F, CHR 0x92, CHR 0xA1] @
              '' I noticed this might be relevant. Consider adding these tags:'' @
              [CHR 0x0A] @ ''- #deploy'' @ [CHR 0x0A] @ ''- #infra'' @ [CHR 0x0A]) None] \<and>
        documentation (calls w') = []) \<and>
   (case ProcessMessage
          (providers0 (Inr (analysis0 ''unknown'' 0.5 [''deploy'', ''infra''])) (Inr [])
             (Inr ''# Decision'') None)
          (Some Background) (Some msg0) w0 of
      (out, m, w') \<Rightarrow>
        out = Returned None \<and> replies (calls w') = [] \<and> documentation (calls w') = [])"
proof -
  let ?hi = "analysis0 ''unknown'' 0.9 [''deploy'', ''infra'']"
  let ?lo = "analysis0 ''unknown'' 0.5 [''deploy'', ''infra'']"
  let ?e1 = "providers0 (Inr ?hi) (Inr []) (Inr ''# Decision'') None"
  let ?e2 = "providers0 (Inr ?lo) (Inr []) (Inr ''# Decision'') None"
  obtain o1 n1 v1 where r1: "ProcessMessage ?e1 (Some Background) (Some msg0) w0 = (o1, n1, v1)"
    by (cases "ProcessMessage ?e1 (Some Background) (Some msg0) w0") auto
  obtain o2 n2 v2 where r2: "ProcessMessage ?e2 (Some Background) (Some msg0) w0 = (o2, n2, v2)"
    by (cases "ProcessMessage ?e2 (Some Background) (Some msg0) w0") auto
  have a1: "AnalyzeMessage ?e1 (Text (m_content msg0)) = Inr ?hi"
    and a2: "AnalyzeMessage ?e2 (Text (m_content msg0)) = Inr ?lo"
    by (simp_all add: providers0_def)
  have u: "r_messageType ?hi = MessageTypeUnknown" "r_messageType ?lo = MessageTypeUnknown"
    by (simp_all add: analysis0_def MessageTypeUnknown_def)
  have d1: "m_references (updateMessageWithAnalysis msg0 ?hi) \<noteq> [] \<or>
         (\<exists>refs. DetectReferences ?e1 (Text (m_content msg0)) = Inr refs)"
    and d2: "m_references (updateMessageWithAnalysis msg0 ?lo) \<noteq> [] \<or>
         (\<exists>refs. DetectReferences ?e2 (Text (m_content msg0)) = Inr refs)"
    by (simp_all add: providers0_def)
  have c: "f64_ge (r_confidenceScore ?hi) (Finite 0.8)" "\<not> f64_ge (r_confidenceScore ?lo) (Finite 0.8)"
    "r_suggestedTags ?hi = [''deploy'', ''infra'']"
    by (simp_all add: analysis0_def f64_ge_def f64_gt_def)
  have s: "suggestion ?hi = [CHR 0xF0, CHR 0x9F, CHR 0x92, CHR 0xA1] @
              '' I noticed this might be relevant. Consider adding these tags:'' @
              [CHR 0x0A] @ ''- #deploy'' @ [CHR 0x0A] @ ''- #infra'' @ [CHR 0x0A]"
    by (simp add: suggestion_def analysis0_def)
  have rr: "ReplyToMessage ?e1 = (\<lambda>_ _. None)" by (simp add: providers0_def)
  from unknown_routing[OF a1 u(1) d1 r1] c s rr
  have 1: "replies (calls v1) = replies (calls w0) @
             [ReplyToMessage_call (m_id msg0) (suggestion ?hi) None]"
    "o1 = Returned None" "documentation (calls v1) = documentation (calls w0)"
    by (simp_all add: Let_def)
  from unknown_routing[OF a2 u(2) d2 r2] c
  have 2: "replies (calls v2) = replies (calls w0)"
    "o2 = Returned None" "documentation (calls v2) = documentation (calls w0)"
    by (simp_all add: Let_def)
  from r1 r2 1 2 s show ?thesis by (simp add: msg0_def w0_def)
qed

text \<open>
  The claim C5 as stated fails in both halves: with confidence 0.5, type unknown and a
  suggested tag, the pipeline calls the analysis and the detection and nothing else, so
  the tag is not surfaced; with confidence 0.9 the tag is sent in a reply.
\<close>

theorem low_confidence_tags_not_surfaced:
  "(case ProcessMessage
          (providers0 (Inr (analysis0 ''unknown'' 0.5 [''deploy''])) (Inr [])
             (Inr ''# Decision'') None)
          (Some Background) (Some msg0) w0 of
      (out, m, w') \<Rightarrow>
        out = Returned None \<and>
        calls w' = [AnalyzeMessage_call ''Let's switch to blue-green deploys'',
                    DetectReferences_call ''Let's switch to blue-green deploys'']) \<and>
   (case ProcessMessage
          (providers0 (Inr (analysis0 ''unknown'' 0.9 [''deploy''])) (Inr [])
             (Inr ''# Decision'') None)
          (Some Background) (Some msg0) w0 of
      (out, m, w') \<Rightarrow>
        out = Returned None \<and>
        calls w' = [AnalyzeMessage_call ''Let's switch to blue-green deploys'',
                    DetectReferences_call ''Let's switch to blue-green deploys'',
                    ReplyToMessage_call ''M1''
                      ([CHR 0xF0, CHR 0x9F, CHR 0x92, CHR 0xA1] @
                       '' I noticed this might be relevant. Consider adding these tags:'' @
                       [CHR 0x0A] @ ''- #deploy'' @ [CHR 0x0A]) None])"
  by (simp add: eval_defs fixture_defs)

text \<open>
  C5, amended. The handler for type unknown surfaces no tag when the confidence is not at
  least 0.8: it returns \<^verbatim>\<open>nil\<close> and calls nothing. When the confidence is at least 0.8 it
  surfaces the suggested tags, if there are any, in one reply that has a line for each.
\<close>

theorem unknown_tags_surfacing:
  "(\<not> f64_ge (r_confidenceScore a) (Finite 0.8) \<longrightarrow>
      unknownHandler_HandleWithAnalysis env ctx msg a w = (None, w)) \<and>
   (f64_ge (r_confidenceScore a) (Finite 0.8) \<and> r_suggestedTags a = [] \<longrightarrow>
      unknownHandler_HandleWithAnalysis env ctx msg a w = (None, w)) \<and>
   (f64_ge (r_confidenceScore a) (Finite 0.8) \<and> r_suggestedTags a \<noteq> [] \<longrightarrow>
      unknownHandler_HandleWithAnalysis env ctx msg a w =
        (ReplyToMessage env (m_id msg) (suggestion a),
         w\<lparr> calls := calls w @
               [ReplyToMessage_call (m_id msg) (suggestion a)
                  (ReplyToMessage env (m_id msg) (suggestion a))] \<rparr>) \<and>
      (\<forall>tag \<in> set (r_suggestedTags a).
         sublist (''- #'' @ tag @ [CHR 0x0A]) (suggestion a)))"
  by (simp add: HandleWithAnalysis_eq suggestion_contains_Cons)

theorem unknown_tags_surfacing_witness:
  "unknownHandler_HandleWithAnalysis
     (providers0 (Inr (analysis0 ''unknown'' 0.5 [''deploy''])) (Inr []) (Inr ''# Decision'') None)
     (Some Background) msg0 (analysis0 ''unknown'' 0.5 [''deploy'']) w0 = (None, w0) \<and>
   unknownHandler_HandleWithAnalysis
     (providers0 (Inr (analysis0 ''unknown'' 1 [])) (Inr []) (Inr ''# Decision'') None)
     (Some Background) msg0 (analysis0 ''unknown'' 1 []) w0 = (None, w0) \<and>
   unknownHandler_HandleWithAnalysis
     (providers0 (Inr (analysis0 ''unknown'' 0.8 [''deploy''])) (Inr []) (Inr ''# Decision'') None)
     (Some Background) msg0 (analysis0 ''unknown'' 0.8 [''deploy'']) w0 =
     (None,
      \<lparr> calls = [ReplyToMessage_call ''M1''
                   ([CHR 0xF0, CHR 0x9F, CHR 0x92, CHR 0xA1] @
                    '' I noticed this might be relevant. Consider adding these tags:'' @
                    [CHR 0x0A] @ ''- #deploy'' @ [CHR 0x0A]) None],
        ticks = 0 \<rparr>) \<and>
   sublist (''- #deploy'' @ [CHR 0x0A]) (suggestion (analysis0 ''unknown'' 0.8 [''deploy'']))"
proof -
  have c: "\<not> f64_ge (r_confidenceScore (analysis0 ''unknown'' 0.5 [''deploy''])) (Finite 0.8)"
    "f64_ge (r_confidenceScore (analysis0 ''unknown'' 1 [])) (Finite 0.8)"
    "f64_ge (r_confidenceScore (analysis0 ''unknown'' 0.8 [''deploy''])) (Finite 0.8)"
    by (simp_all add: analysis0_def f64_ge_def f64_gt_def)
  have t: "r_suggestedTags (analysis0 ''unknown'' 1 []) = []"
    "r_suggestedTags (analysis0 ''unknown'' 0.8 [''deploy'']) = [''deploy'']"
    by (simp_all add: analysis0_def)
  have s: "suggestion (analysis0 ''unknown'' 0.8 [''deploy'']) =
     [CHR 0xF0, CHR 0x9F, CHR 0x92, CHR 0xA1] @
     '' I noticed this might be relevant. Consider adding these tags:'' @
     [CHR 0x0A] @ ''- #deploy'' @ [CHR 0x0A]"
    by (simp add: suggestion_def analysis0_def)
  note th = unknown_tags_surfacing[where ctx = "Some Background" and msg = msg0 and w = w0]
  from th[of "analysis0 ''unknown'' 0.5 [''deploy'']"
        "providers0 (Inr (analysis0 ''unknown'' 0.5 [''deploy''])) (Inr []) (Inr ''# Decision'') None"] c
  have 1: "unknownHandler_HandleWithAnalysis
     (providers0 (Inr (analysis0 ''unknown'' 0.5 [''deploy''])) (Inr []) (Inr ''# Decision'') None)
     (Some Background) msg0 (analysis0 ''unknown'' 0.5 [''deploy'']) w0 = (None, w0)"
    by blast
  from th[of "analysis0 ''unknown'' 1 []"
        "providers0 (Inr (analysis0 ''unknown'' 1 [])) (Inr []) (Inr ''# Decision'') None"] c t
  have 2: "unknownHandler_HandleWithAnalysis
     (providers0 (Inr (analysis0 ''unknown'' 1 [])) (Inr []) (Inr ''# Decision'') None)
     (Some Background) msg0 (analysis0 ''unknown'' 1 []) w0 = (None, w0)"
    by blast
  from th[of "analysis0 ''unknown'' 0.8 [''deploy'']"
        "providers0 (Inr (analysis0 ''unknown'' 0.8 [''deploy''])) (Inr []) (Inr ''# Decision'') None"] c t
  have 3: "unknownHandler_HandleWithAnalysis
     (providers0 (Inr (analysis0 ''unknown'' 0.8 [''deploy''])) (Inr []) (Inr ''# Decision'') None)
     (Some Background) msg0 (analysis0 ''unknown'' 0.8 [''deploy'']) w0 =
        (ReplyToMessage (providers0 (Inr (analysis0 ''unknown'' 0.8 [''deploy''])) (Inr []) (Inr ''# Decision'') None) (m_id msg0) (suggestion (analysis0 ''unknown'' 0.8 [''deploy''])),
         w0\<lparr> calls := calls w0 @
               [ReplyToMessage_call (m_id msg0) (suggestion (analysis0 ''unknown'' 0.8 [''deploy'']))
                  (ReplyToMessage (providers0 (Inr (analysis0 ''unknown'' 0.8 [''deploy''])) (Inr []) (Inr ''# Decision'') None) (m_id msg0) (suggestion (analysis0 ''unknown'' 0.8 [''deploy''])))] \<rparr>)"
    and 4: "\<forall>tag \<in> set [''deploy''].
         sublist (''- #'' @ tag @ [CHR 0x0A]) (suggestion (analysis0 ''unknown'' 0.8 [''deploy'']))"
    by simp_all
  from 4 have 5: "sublist (''- #deploy'' @ [CHR 0x0A]) (suggestion (analysis0 ''unknown'' 0.8 [''deploy'']))"
    by simp
  from 1 2 3 5 s show ?thesis
    by (simp add: providers0_def msg0_def w0_def)
qed


text \<open>
  C8. When the decision handler returns \<^verbatim>\<open>nil\<close> for a message, it has made exactly three
  calls: the generation, one store of the generated document under the path that
  \<^verbatim>\<open>generatePath\<close> derives from the type and the category of the message and the time read
  for the path, and one reply to the message, whose text is the check mark, then
  \<^verbatim>\<open> Recorded decision in category: \<close> and the category, followed by the line with the
  number of references exactly when the message has at least one reference.
\<close>

theorem decision_handled:
  assumes "decisionHandler_Handle env ctx msg w = (None, w')"
  shows "\<exists>doc.
    (let md = \<lparr> md_type = m_messageType msg, md_category = m_category msg,
                  md_created_at = Now env (ticks w), md_references = m_references msg \<rparr>;
         path = generatePath (m_messageType msg) (m_category msg) (Now env (Suc (ticks w)));
         reply = [CHR 0xE2, CHR 0x9C, CHR 0x85] @ '' Recorded decision in category: '' @
           m_category msg @
           (if m_references msg \<noteq> []
            then [CHR 0x0A, CHR 0xF0, CHR 0x9F, CHR 0x94, CHR 0x97] @ '' Linked to '' @
                 Itoa (length (m_references msg)) @ '' related items''
            else [])
     in GenerateDocumentation env (Text (m_content msg)) md = Inr doc \<and>
        calls w' = calls w @
          [GenerateDocumentation_call (Text (m_content msg)) md,
           StoreDocument_call path doc md None,
           ReplyToMessage_call (m_id msg) reply None] \<and>
        stored (calls w') = stored (calls w) @ [(path, doc)] \<and>
        sent (calls w') = sent (calls w) @ [(m_id msg, reply)])"
  using assms
  by (auto simp: decisionHandler_Handle_def createDocumentation_def CreateDocumentation_def
        reply_to_def called_def linked_def HasReferences_def References_def Let_def
        calls_append
      split: option.splits sum.splits prod.splits if_splits)

theorem decision_handled_witness:
  "(let w' = snd (decisionHandler_Handle
                    (providers0 (Inr (analysis0 ''decision'' 0.92 [])) (Inr [])
                       (Inr ''# Decision'') None)
                    (Some Background) (msg0\<lparr> m_category := ''operations'' \<rparr>) w0)
    in stored (calls w') =
         [(''docs/operations/decision-20250102-030406.md'', ''# Decision'')] \<and>
       sent (calls w') =
         [(''M1'', [CHR 0xE2, CHR 0x9C, CHR 0x85] @
                   '' Recorded decision in category: operations'')]) \<and>
   (let w' = snd (decisionHandler_Handle
                    (providers0 (Inr (analysis0 ''decision'' 0.92 [])) (Inr [])
                       (Inr ''# Decision'') None)
                    (Some Background)
                    (msg0\<lparr> m_category := ''operations'', m_references := [Some ref0] \<rparr>) w0)
    in stored (calls w') =
         [(''docs/operations/decision-20250102-030406.md'', ''# Decision'')] \<and>
       sent (calls w') =
         [(''M1'', [CHR 0xE2, CHR 0x9C, CHR 0x85] @
                   '' Recorded decision in category: operations'' @
                   [CHR 0x0A, CHR 0xF0, CHR 0x9F, CHR 0x94, CHR 0x97] @
                   '' Linked to 1 related items'')])"
proof -
  let ?env = "providers0 (Inr (analysis0 ''decision'' 0.92 [])) (Inr []) (Inr ''# Decision'') None"
  let ?m1 = "msg0\<lparr> m_category := ''operations'' \<rparr>"
  let ?m2 = "msg0\<lparr> m_category := ''operations'', m_references := [Some ref0] \<rparr>"
  let ?r1 = "decisionHandler_Handle ?env (Some Background) ?m1 w0"
  let ?r2 = "decisionHandler_Handle ?env (Some Background) ?m2 w0"
  have "fst ?r1 = None" "fst ?r2 = None"
    by (simp_all add: eval_defs fixture_defs)
  then have h: "?r1 = (None, snd ?r1)" "?r2 = (None, snd ?r2)"
    by (simp_all add: prod_eq_iff)
  have env: "Now ?env = clock0" "GenerateDocumentation ?env = (\<lambda>_ _. Inr ''# Decision'')"
    by (simp_all add: providers0_def)
  have one: "Itoa (Suc 0) = ''1''" by (simp add: Itoa.simps)
  from decision_handled[OF h(1)] env
  have 1: "stored (calls (snd ?r1)) =
      [(''docs/operations/decision-20250102-030406.md'', ''# Decision'')]"
    "sent (calls (snd ?r1)) =
      [(''M1'', [CHR 0xE2, CHR 0x9C, CHR 0x85] @ '' Recorded decision in category: operations'')]"
    by (auto simp: Let_def msg0_def w0_def clock0_def path_operations)
  from decision_handled[OF h(2)] env
  have 2: "stored (calls (snd ?r2)) =
      [(''docs/operations/decision-20250102-030406.md'', ''# Decision'')]"
    "sent (calls (snd ?r2)) =
      [(''M1'', [CHR 0xE2, CHR 0x9C, CHR 0x85] @
                   '' Recorded decision in category: operations'' @
                   [CHR 0x0A, CHR 0xF0, CHR 0x9F, CHR 0x94, CHR 0x97] @
                   '' Linked to 1 related items'')]"
    by (auto simp: Let_def msg0_def w0_def clock0_def path_operations one)
  from 1 2 show ?thesis by (simp add: Let_def)
qed

section \<open>Properties of the Slack client\<close>

lemma digit_char: "d < 10 \<Longrightarrow> of_char (''0123456789'' ! d) = 48 + (d::nat)"
proof -
  assume "d < 10"
  then have "d \<in> set [0..<10]" by simp
  also have "[0..<10] = [0, 1, 2, 3, 4, 5, 6, 7, 8, 9::nat]" by (simp add: upt_rec)
  finally show ?thesis by auto
qed

lemma digits_value_Itoa: "digits_value (Itoa n) = n"
proof (induction n rule: Itoa.induct)
  case (1 n)
  show ?case
  proof (cases "n < 10")
    case True
    then show ?thesis by (simp add: Itoa.simps[of n] digits_value_def digit_char)
  next
    case False
    with 1 have ih: "digits_value (Itoa (n div 10)) = n div 10" by simp
    have "n mod 10 < 10" by simp
    then have "of_char (''0123456789'' ! (n mod 10)) = 48 + (n mod 10)" by (rule digit_char)
    with False ih show ?thesis
      by (simp add: Itoa.simps[of n] digits_value_def)
  qed
qed

lemma inj_Itoa: "inj Itoa"
  by (rule inj_on_inverseI[where g = digits_value]) (simp add: digits_value_Itoa)


lemma inj_ulid0: "inj ulid0"
proof (rule injI)
  fix x y assume "ulid0 x = ulid0 y"
  then have "Itoa x = Itoa y" by (simp add: ulid0_def)
  with inj_Itoa show "x = y" by (simp add: inj_eq)
qed

lemma threadID_of_root:
  assumes "ThreadTimestamp msg = []" and "threadID_of env c msg = Some x"
  shows "x = GenerateID env (generated c)"
  using assms
  by (auto simp: threadID_of_def threadMapping_def Let_def
      split: if_splits sum.splits resolution.splits)

lemma processMessageEvent_generated:
  assumes "processMessageEvent env c eventID msg = Finished c1"
  shows "generated c \<le> generated c1"
  using assms
  by (auto simp: processMessageEvent_def threadMapping_def Let_def
      split: if_splits sum.splits resolution.splits option.splits)

lemma processMessageEvent_root_generated:
  assumes "processMessageEvent env c eventID msg = Finished c1"
    and "ThreadTimestamp msg = []" and "threadID_of env c msg = Some x"
  shows "generated c < generated c1"
  using assms
  by (auto simp: processMessageEvent_def threadID_of_def threadMapping_def Let_def
      split: if_splits sum.splits resolution.splits option.splits)

lemma resolutions_length: "length (resolutions env c es) = length es"
  by (induction es arbitrary: c) (auto split: progress.splits)

lemma resolutions_root_fresh:
  assumes "j < length es" and "ThreadTimestamp (snd (es ! j)) = []"
    and "resolutions env c es ! j = Some x"
  shows "\<exists>n \<ge> generated c. x = GenerateID env n"
  using assms
proof (induction es arbitrary: c j)
  case Nil
  then show ?case by simp
next
  case (Cons ev es)
  obtain eventID msg where ev: "ev = (eventID, msg)" by (cases ev)
  show ?case
  proof (cases j)
    case 0
    with Cons.prems ev have "x = GenerateID env (generated c)"
      by (auto intro: threadID_of_root)
    then show ?thesis by auto
  next
    case (Suc j')
    show ?thesis
    proof (cases "processMessageEvent env c eventID msg")
      case (Hung c1)
      with Cons.prems ev Suc show ?thesis by simp
    next
      case (Finished c1)
      with Cons.prems ev Suc have "j' < length es" "ThreadTimestamp (snd (es ! j')) = []"
        "resolutions env c1 es ! j' = Some x" by simp_all
      then obtain n where "n \<ge> generated c1" "x = GenerateID env n"
        using Cons.IH by blast
      moreover from Finished have "generated c \<le> generated c1"
        by (rule processMessageEvent_generated)
      ultimately have "n \<ge> generated c \<and> x = GenerateID env n" by simp
      then show ?thesis by blast
    qed
  qed
qed

lemma roots_distinct:
  assumes "inj (GenerateID env)"
    and "i < j" and "j < length es"
    and "ThreadTimestamp (snd (es ! i)) = []" and "ThreadTimestamp (snd (es ! j)) = []"
    and "resolutions env c es ! i = Some x" and "resolutions env c es ! j = Some y"
  shows "x \<noteq> y"
  using assms(2-)
proof (induction es arbitrary: c i j)
  case Nil
  then show ?case by simp
next
  case (Cons ev es)
  obtain eventID msg where ev: "ev = (eventID, msg)" by (cases ev)
  from Cons.prems obtain j' where j: "j = Suc j'" by (cases j) auto
  show ?case
  proof (cases "processMessageEvent env c eventID msg")
    case (Hung c1)
    with Cons.prems ev j show ?thesis by simp
  next
    case (Finished c1)
    with Cons.prems ev j have tail: "j' < length es" "ThreadTimestamp (snd (es ! j')) = []"
      "resolutions env c1 es ! j' = Some y" by simp_all
    show ?thesis
    proof (cases i)
      case 0
      with Cons.prems ev have root: "ThreadTimestamp msg = []" "threadID_of env c msg = Some x"
        by simp_all
      then have x: "x = GenerateID env (generated c)" by (rule threadID_of_root)
      from Finished root have "generated c < generated c1"
        by (rule processMessageEvent_root_generated)
      moreover from tail obtain n where "n \<ge> generated c1" "y = GenerateID env n"
        using resolutions_root_fresh by blast
      ultimately show ?thesis using x assms(1) by (auto simp: inj_eq)
    next
      case (Suc i')
      with Cons.prems ev j Finished have "i' < j'" "ThreadTimestamp (snd (es ! i')) = []"
        "resolutions env c1 es ! i' = Some x" by simp_all
      with tail show ?thesis using Cons.IH by blast
    qed
  qed
qed

lemma threadID_of_registered:
  assumes "ThreadTimestamp msg = p" and "p \<noteq> []" and "threadMap c p = Some t"
    and "threadID_of env c msg = Some x"
  shows "x = t"
  using assms
  by (auto simp: threadID_of_def threadMapping_def Let_def
      split: if_splits sum.splits resolution.splits)

lemma processMessageEvent_keeps_registered:
  assumes "processMessageEvent env c eventID msg = Finished c1"
    and "threadMap c p = Some t"
    and "ThreadTimestamp msg = [] \<longrightarrow> Timestamp msg \<noteq> p"
  shows "threadMap c1 p = Some t"
  using assms
  by (auto simp: processMessageEvent_def threadMapping_def Let_def
      split: if_splits sum.splits resolution.splits option.splits)

lemma replies_registered:
  assumes "p \<noteq> []" and "threadMap c p = Some t"
    and "\<forall>e \<in> set es. ThreadTimestamp (snd e) = [] \<longrightarrow> Timestamp (snd e) \<noteq> p"
    and "k < length es" and "ThreadTimestamp (snd (es ! k)) = p"
    and "resolutions env c es ! k = Some x"
  shows "x = t"
  using assms(2-)
proof (induction es arbitrary: c k)
  case Nil
  then show ?case by simp
next
  case (Cons ev es)
  obtain eventID msg where ev: "ev = (eventID, msg)" by (cases ev)
  show ?case
  proof (cases k)
    case 0
    with Cons.prems ev assms(1) show ?thesis by (auto intro: threadID_of_registered)
  next
    case (Suc k')
    show ?thesis
    proof (cases "processMessageEvent env c eventID msg")
      case (Hung c1)
      with Cons.prems ev Suc show ?thesis by simp
    next
      case (Finished c1)
      from Cons.prems(2) ev have "ThreadTimestamp msg = [] \<longrightarrow> Timestamp msg \<noteq> p" by simp
      with Finished Cons.prems(1) have "threadMap c1 p = Some t"
        by (rule processMessageEvent_keeps_registered)
      moreover from Cons.prems ev Suc Finished have "k' < length es"
        "ThreadTimestamp (snd (es ! k')) = p" "resolutions env c1 es ! k' = Some x"
        "\<forall>e \<in> set es. ThreadTimestamp (snd e) = [] \<longrightarrow> Timestamp (snd e) \<noteq> p"
        by simp_all
      ultimately show ?thesis using Cons.IH by blast
    qed
  qed
qed


lemmas slack_defs = resolutions.simps handleEvents.simps threadID_of_def
  processMessageEvent_def threadMapping_def NewMessage_def NewMessageContent_def
  MaxContentLength_def MessageType_IsValid_def validMessageTypes_def
  MessageTypeIdea_def MessageTypeDecision_def MessageTypeStatus_def MessageTypeUnknown_def
  CategoryOther_def Let_def slack0_def client0_def client1_def event0_def

lemma TrimSpace_hello: "TrimSpace ''hello'' = ''hello''"
  by code_simp

lemma ulid0_values:
  "ulid0 0 = ''ID0''" "ulid0 (Suc 0) = ''ID1''" "ulid0 (Suc (Suc 0)) = ''ID2''"
  by (simp_all add: ulid0_def Itoa.simps)

text \<open>
  The claim C1 as stated fails, already when the calls run one after another: a root event
  (no thread marker) is never looked up in the thread map, it is always given a newly
  generated id, so two root events with the same conversation marker \<^verbatim>\<open>T1\<close> resolve to
  two different thread ids, whatever the value of \<^verbatim>\<open>MessageTypeInformation\<close>.
\<close>

theorem same_marker_roots_split:
  "resolutions (slack0 ''information'') client0
     [(''E1'', event0 [] ''T1''), (''E2'', event0 [] ''T1'')] = [Some ''ID0'', Some ''ID1''] \<and>
   resolutions (slack0 ''unknown'') client0
     [(''E1'', event0 [] ''T1''), (''E2'', event0 [] ''T1'')] = [Some ''ID0'', Some ''ID2''] \<and>
   (case handleEvents (slack0 ''unknown'') client0
           [(''E1'', event0 [] ''T1''), (''E2'', event0 [] ''T1'')] of
      Finished c \<Rightarrow> map m_threadID (messageCh c) = [''ID0'', ''ID2'']
    | Hung c \<Rightarrow> False)"
  by (simp add: slack_defs TrimSpace_hello ulid0_values)

text \<open>
  C1, amended, for events handled one after another as the loop of \<^verbatim>\<open>handleEvents\<close> does,
  the generated identifiers being pairwise distinct. Any two root events that are given
  a thread id are given different ones, whether their markers are equal or not. An event
  whose thread marker is registered is given the registered id, so two such events with
  the same marker resolve to the same id, as long as no root event in between carries that
  marker as its own timestamp.
\<close>

theorem thread_resolution_sequential:
  assumes "inj (GenerateID env)"
  shows "(\<forall>i j x y. i < j \<and> j < length es \<and>
            ThreadTimestamp (snd (es ! i)) = [] \<and> ThreadTimestamp (snd (es ! j)) = [] \<and>
            resolutions env c es ! i = Some x \<and> resolutions env c es ! j = Some y \<longrightarrow>
            x \<noteq> y) \<and>
         (\<forall>p t k x. p \<noteq> [] \<and> threadMap c p = Some t \<and>
            (\<forall>e \<in> set es. ThreadTimestamp (snd e) = [] \<longrightarrow> Timestamp (snd e) \<noteq> p) \<and>
            k < length es \<and> ThreadTimestamp (snd (es ! k)) = p \<and>
            resolutions env c es ! k = Some x \<longrightarrow>
            x = t)"
proof (intro conjI allI impI)
  fix i j x y
  assume "i < j \<and> j < length es \<and>
            ThreadTimestamp (snd (es ! i)) = [] \<and> ThreadTimestamp (snd (es ! j)) = [] \<and>
            resolutions env c es ! i = Some x \<and> resolutions env c es ! j = Some y"
  with assms show "x \<noteq> y" using roots_distinct by blast
next
  fix p t k x
  assume "p \<noteq> [] \<and> threadMap c p = Some t \<and>
            (\<forall>e \<in> set es. ThreadTimestamp (snd e) = [] \<longrightarrow> Timestamp (snd e) \<noteq> p) \<and>
            k < length es \<and> ThreadTimestamp (snd (es ! k)) = p \<and>
            resolutions env c es ! k = Some x"
  then show "x = t" using replies_registered by blast
qed

theorem thread_resolution_sequential_witness:
  "resolutions (slack0 ''information'') client0
     [(''E1'', event0 [] ''T1''), (''E2'', event0 [] ''T2'')] = [Some (ulid0 0), Some (ulid0 1)] \<and>
   ulid0 0 \<noteq> ulid0 1 \<and>
   resolutions (slack0 ''information'') client1
     [(''E3'', event0 ''T1'' ''R1''), (''E4'', event0 ''T1'' ''R2'')] =
     [Some (ulid0 0), Some (ulid0 0)]"
proof -
  let ?env = "slack0 ''information''"
  let ?roots = "[(''E1'', event0 [] ''T1''), (''E2'', event0 [] ''T2'')]"
  let ?replies = "[(''E3'', event0 ''T1'' ''R1''), (''E4'', event0 ''T1'' ''R2'')]"
  have inj: "inj (GenerateID ?env)" by (simp add: slack0_def inj_ulid0)
  have r: "resolutions ?env client0 ?roots = [Some (ulid0 0), Some (ulid0 1)]"
    by (simp add: slack_defs TrimSpace_hello)
  have "0 < (1::nat) \<and> 1 < length ?roots \<and>
      ThreadTimestamp (snd (?roots ! 0)) = [] \<and> ThreadTimestamp (snd (?roots ! 1)) = [] \<and>
      resolutions ?env client0 ?roots ! 0 = Some (ulid0 0) \<and>
      resolutions ?env client0 ?roots ! 1 = Some (ulid0 1)"
    using r by (simp add: event0_def)
  with thread_resolution_sequential[OF inj, of ?roots client0]
  have ne: "ulid0 0 \<noteq> ulid0 1" by blast
  obtain a b where ab: "resolutions ?env client1 ?replies = [Some a, Some b]"
    by (simp add: slack_defs TrimSpace_hello)
  have pre: "''T1'' \<noteq> [] \<and> threadMap client1 ''T1'' = Some (ulid0 0) \<and>
      (\<forall>e \<in> set ?replies. ThreadTimestamp (snd e) = [] \<longrightarrow> Timestamp (snd e) \<noteq> ''T1'')"
    by (simp add: client1_def event0_def)
  have k0: "0 < length ?replies \<and> ThreadTimestamp (snd (?replies ! 0)) = ''T1'' \<and>
      resolutions ?env client1 ?replies ! 0 = Some a"
    and k1: "1 < length ?replies \<and> ThreadTimestamp (snd (?replies ! 1)) = ''T1'' \<and>
      resolutions ?env client1 ?replies ! 1 = Some b"
    using ab by (simp_all add: event0_def)
  from thread_resolution_sequential[OF inj, of ?replies client1] pre k0
  have a: "a = ulid0 0" by blast
  from thread_resolution_sequential[OF inj, of ?replies client1] pre k1
  have b: "b = ulid0 0" by blast
  from r ne ab a b show ?thesis by simp
qed

text \<open>
  C2. A reply whose thread marker is not registered is to be given a new thread id and
  sent on. \<^verbatim>\<open>processMessageEvent\<close> generates the id and registers it under the thread
  marker, and then returns: no message is sent on the channel and the event is given no
  thread id. (When a read lock is still held, it blocks instead, before registering.)
\<close>

theorem orphan_reply_not_emitted:
  assumes "BotID msg = []" and "User msg \<noteq> []" and "GetUserInfo env (User msg) = Inr name"
    and "ThreadTimestamp msg \<noteq> []" and "threadMap c (ThreadTimestamp msg) = None"
  shows "(case processMessageEvent env c eventID msg of
            Finished c1 \<Rightarrow>
              messageCh c1 = messageCh c \<and> readers c = 0 \<and>
              threadMap c1 (ThreadTimestamp msg) = Some (GenerateID env (generated c))
          | Hung c1 \<Rightarrow>
              messageCh c1 = messageCh c \<and> 0 < readers c \<and> threadMap c1 = threadMap c) \<and>
         threadID_of env c msg = None"
  using assms
  by (auto simp: processMessageEvent_def threadID_of_def threadMapping_def Let_def)

theorem orphan_reply_not_emitted_witness:
  "(case processMessageEvent (slack0 ''unknown'') client0 ''E1'' (event0 ''P1'' ''R1'') of
      Finished c1 \<Rightarrow> messageCh c1 = [] \<and> threadMap c1 ''P1'' = Some (ulid0 0)
    | Hung c1 \<Rightarrow> False) \<and>
   threadID_of (slack0 ''unknown'') client0 (event0 ''P1'' ''R1'') = None"
proof -
  let ?env = "slack0 ''unknown''"
  let ?msg = "event0 ''P1'' ''R1''"
  have h: "BotID ?msg = []" "User ?msg \<noteq> []" "GetUserInfo ?env (User ?msg) = Inr ''ann''"
    "ThreadTimestamp ?msg \<noteq> []" "threadMap client0 (ThreadTimestamp ?msg) = None"
    by (simp_all add: event0_def slack0_def client0_def)
  have v: "readers client0 = 0" "messageCh client0 = []" "generated client0 = 0"
    "GenerateID ?env = ulid0" "ThreadTimestamp ?msg = ''P1''"
    by (simp_all add: event0_def slack0_def client0_def)
  from orphan_reply_not_emitted[OF h, of "''E1''"] v show ?thesis
    by (auto split: progress.splits)
qed

text \<open>
  The sibling path for a root event takes the same locks and goes on to send the message.
  A reply to a registered thread leaves its read lock held, and the next root event then
  waits for the write lock forever.
\<close>

lemma root_emitted:
  "(case processMessageEvent (slack0 ''unknown'') client0 ''E1'' (event0 [] ''R1'') of
      Finished c1 \<Rightarrow> map m_threadID (messageCh c1) = [''ID0'']
    | Hung c1 \<Rightarrow> False)"
  by (simp add: slack_defs TrimSpace_hello ulid0_values)

lemma root_after_reply_hangs:
  "(case handleEvents (slack0 ''unknown'') client0
           [(''E1'', event0 [] ''T1''), (''E2'', event0 ''T1'' ''R1''),
            (''E3'', event0 [] ''T2'')] of
      Finished c \<Rightarrow> False
    | Hung c \<Rightarrow> map m_threadID (messageCh c) = [''ID0'', ''ID0''] \<and> readers c = 1)"
  by (simp add: slack_defs TrimSpace_hello ulid0_values)

end
